theory Spec2Isabelle
  imports Main "HOL-Library.Word"
begin

section \<open>Payment mappings and their store (src/store.ts)\<close>

text \<open>
  The store keeps one JSON document per key, with a time to live. The model keeps the
  parsed document itself (\<open>JSON.parse (JSON.stringify m) = m\<close> for the documents the
  app writes) together with the number of seconds Redis would report for the key:
  positive while the key expires in the future, \<open>-1\<close> for a key without expiry.
  Shops and payment mappings live under different key prefixes (\<open>shopify:shop:\<close>,
  \<open>shopify:payment:\<close>), so they are two maps here. Store calls are taken to succeed.
\<close>

record ShopData =
  accessToken :: string
  scope :: string
  installedAt :: string

record PaymentMapping =
  shopDomain :: string
  shopifyOrderId :: nat
  shopifyOrderName :: string
  amount :: string
  currency :: string
  customerEmail :: string
  network :: string
  token :: string
  payzCorePaymentId :: string
  address :: string
  expectedAmount :: string
  qrCode :: string
  expiresAt :: string
  status :: string
  createdAt :: string
  notice :: "string option"
  requiresTxid :: "bool option"
  confirmEndpoint :: "string option"

record store =
  shops :: "string \<rightharpoonup> ShopData"
  payments :: "string \<rightharpoonup> (PaymentMapping \<times> int)"

text \<open>Payment mappings expire after 7 days.\<close>

definition PAYMENT_TTL :: int where
  "PAYMENT_TTL = 86400 * 7"

text \<open>Redis \<open>TTL\<close>: \<open>-2\<close> for a key that does not exist, else the key's remaining seconds.\<close>

definition redis_ttl :: "store \<Rightarrow> string \<Rightarrow> int" where
  "redis_ttl st paymentId = (case payments st paymentId of None \<Rightarrow> - 2 | Some (m, t) \<Rightarrow> t)"

definition getShop :: "store \<Rightarrow> string \<Rightarrow> ShopData option" where
  "getShop st domain = shops st domain"

definition savePaymentMapping :: "store \<Rightarrow> string \<Rightarrow> PaymentMapping \<Rightarrow> store" where
  "savePaymentMapping st paymentId mapping =
     st\<lparr>payments := (payments st)(paymentId \<mapsto> (mapping, PAYMENT_TTL))\<rparr>"

definition getPaymentMapping :: "store \<Rightarrow> string \<Rightarrow> PaymentMapping option" where
  "getPaymentMapping st paymentId = map_option fst (payments st paymentId)"

definition updatePaymentMappingStatus :: "store \<Rightarrow> string \<Rightarrow> string \<Rightarrow> store" where
  "updatePaymentMappingStatus st paymentId new_status =
     (case getPaymentMapping st paymentId of
        None \<Rightarrow> st
      | Some mapping \<Rightarrow>
          let mapping' = mapping\<lparr>status := new_status\<rparr>;
              ttl = redis_ttl st paymentId;
              expiry = (if ttl > 0 then ttl else PAYMENT_TTL)
          in st\<lparr>payments := (payments st)(paymentId \<mapsto> (mapping', expiry))\<rparr>)"

text \<open>The stored status of a payment, when there is a record.\<close>

definition stored_status :: "store \<Rightarrow> string \<Rightarrow> string option" where
  "stored_status st paymentId = map_option status (getPaymentMapping st paymentId)"

section \<open>The Shopify Admin API client\<close>

text \<open>
  The commerce system is outside the repository: it is a parameter of the model, a
  deterministic machine \<open>api\<close> over a state \<open>'w\<close> of its own that answers each request
  with a JSON body or fails (\<open>None\<close>: the fetch is rejected or times out, the response is
  not ok, or its body cannot be read). Every request the client sends is appended to
  \<open>issued\<close>, whether or not it succeeds.
\<close>

datatype error = ShopifyApiError | PayzCoreApiError | RangeError

record ShopifyOrder =
  order_id :: nat
  order_name :: string
  order_email :: string
  financial_status :: string
  total_price :: string
  order_currency :: string
  created_at :: string
  cancelled_at :: "string option"
  order_note :: "string option"
  tags :: string

record ShopifyClient =
  client_shopDomain :: string
  client_accessToken :: string

record transaction_body =
  txn_kind :: string
  txn_status :: string
  txn_amount :: string
  txn_currency :: string
  txn_gateway :: string
  txn_source :: string
  txn_message :: string

datatype shopify_request =
    GetOrder nat
  | PostTransaction nat transaction_body
  | PutOrderNote nat string
  | PutOrderTags nat string
  | PostCancel nat string

datatype shopify_response = OrderJson ShopifyOrder | OtherJson

type_synonym 'w shopify_api =
  "ShopifyClient \<Rightarrow> shopify_request \<Rightarrow> 'w \<Rightarrow> shopify_response option \<times> 'w"

record 'w commerce =
  remote_state :: 'w
  issued :: "(ShopifyClient \<times> shopify_request) list"

definition request ::
  "'w shopify_api \<Rightarrow> ShopifyClient \<Rightarrow> shopify_request \<Rightarrow> 'w commerce
     \<Rightarrow> (error + shopify_response) \<times> 'w commerce" where
  "request api c q s =
     (case api c q (remote_state s) of
        (r, w') \<Rightarrow>
          ((case r of None \<Rightarrow> Inl ShopifyApiError | Some b \<Rightarrow> Inr b),
           \<lparr>remote_state = w', issued = issued s @ [(c, q)]\<rparr>))"

text \<open>
  \<open>getOrder\<close> returns \<open>data.order\<close>. A body without an order makes every caller throw at
  its first field access, inside the same \<open>try\<close> (or none) as the call itself, so it is
  the same failure here.
\<close>

definition getOrder ::
  "'w shopify_api \<Rightarrow> ShopifyClient \<Rightarrow> nat \<Rightarrow> 'w commerce \<Rightarrow> (error + ShopifyOrder) \<times> 'w commerce" where
  "getOrder api c orderId s =
     (case request api c (GetOrder orderId) s of
        (Inr (OrderJson ord), s') \<Rightarrow> (Inr ord, s')
      | (Inr OtherJson, s') \<Rightarrow> (Inl ShopifyApiError, s')
      | (Inl e, s') \<Rightarrow> (Inl e, s'))"

record paid_details =
  det_amount :: string
  det_currency :: string
  det_txHash :: "string option"
  det_network :: string
  det_token :: "string option"
  det_payzCorePaymentId :: string

text \<open>JavaScript's \<open>x || d\<close> on a string: the empty string is falsy.\<close>

definition or_default :: "string \<Rightarrow> string \<Rightarrow> string" where
  "or_default x d = (if x = [] then d else x)"

definition truthy :: "string option \<Rightarrow> bool" where
  "truthy x = (case x of None \<Rightarrow> False | Some v \<Rightarrow> v \<noteq> [])"

text \<open>A template literal prints \<open>null\<close> for a null string.\<close>

definition show_nullable :: "string option \<Rightarrow> string" where
  "show_nullable x = (case x of None \<Rightarrow> ''null'' | Some v \<Rightarrow> v)"

text \<open>The capture transaction \<open>markOrderAsPaid\<close> posts.\<close>

definition capture_transaction :: "paid_details \<Rightarrow> transaction_body" where
  "capture_transaction details =
     (let tokenLabel = (case det_token details of None \<Rightarrow> ''USDT'' | Some t \<Rightarrow> or_default t ''USDT'')
      in \<lparr>txn_kind = ''capture'', txn_status = ''success'',
          txn_amount = det_amount details, txn_currency = det_currency details,
          txn_gateway = ''PayzCore '' @ tokenLabel, txn_source = ''external'',
          txn_message = tokenLabel @ '' received on '' @ det_network details
            @ ''. PayzCore ID: '' @ det_payzCorePaymentId details
            @ (if truthy (det_txHash details)
               then ''. TX: '' @ show_nullable (det_txHash details) else [])\<rparr>)"

definition markOrderAsPaid ::
  "'w shopify_api \<Rightarrow> ShopifyClient \<Rightarrow> nat \<Rightarrow> paid_details \<Rightarrow> 'w commerce
     \<Rightarrow> (error + unit) \<times> 'w commerce" where
  "markOrderAsPaid api c orderId details s =
     (case request api c (PostTransaction orderId (capture_transaction details)) s of
        (Inl e, s') \<Rightarrow> (Inl e, s')
      | (Inr b, s') \<Rightarrow> (Inr (), s'))"

definition addOrderNote ::
  "'w shopify_api \<Rightarrow> ShopifyClient \<Rightarrow> nat \<Rightarrow> string \<Rightarrow> 'w commerce \<Rightarrow> (error + unit) \<times> 'w commerce" where
  "addOrderNote api c orderId note_text s =
     (case request api c (PutOrderNote orderId note_text) s of
        (Inl e, s') \<Rightarrow> (Inl e, s')
      | (Inr b, s') \<Rightarrow> (Inr (), s'))"

text \<open>\<open>str.split(', ')\<close> and \<open>list.join(', ')\<close>.\<close>

fun split_comma :: "string \<Rightarrow> string \<Rightarrow> string list" where
  "split_comma acc [] = [rev acc]"
| "split_comma acc [a] = [rev (a # acc)]"
| "split_comma acc (a # b # cs) =
     (if a = CHR '','' \<and> b = CHR '' '' then rev acc # split_comma [] cs
      else split_comma (a # acc) (b # cs))"

fun join_with :: "string \<Rightarrow> string list \<Rightarrow> string" where
  "join_with sep [] = []"
| "join_with sep [x] = x"
| "join_with sep (x # y # ys) = x @ sep @ join_with sep (y # ys)"

text \<open>\<open>[...new Set(xs)]\<close>: the first occurrence of each element, in order.\<close>

definition set_order :: "'a list \<Rightarrow> 'a list" where
  "set_order xs = fold (\<lambda>x seen. if x \<in> set seen then seen else seen @ [x]) xs []"

text \<open>The tags \<open>addOrderTags\<close> writes: the order's current tags and the new ones, merged.\<close>

definition merge_tags :: "string \<Rightarrow> string \<Rightarrow> string" where
  "merge_tags current new_tags =
     (let currentTags = (if current = [] then [] else split_comma [] current);
          newTags = split_comma [] new_tags;
          mergedTags = set_order (currentTags @ newTags)
      in join_with '', '' mergedTags)"

definition addOrderTags ::
  "'w shopify_api \<Rightarrow> ShopifyClient \<Rightarrow> nat \<Rightarrow> string \<Rightarrow> 'w commerce \<Rightarrow> (error + unit) \<times> 'w commerce" where
  "addOrderTags api c orderId new_tags s =
     (case getOrder api c orderId s of
        (Inl e, s1) \<Rightarrow> (Inl e, s1)
      | (Inr ord, s1) \<Rightarrow>
          (case request api c (PutOrderTags orderId (merge_tags (tags ord) new_tags)) s1 of
             (Inl e, s2) \<Rightarrow> (Inl e, s2)
           | (Inr b, s2) \<Rightarrow> (Inr (), s2)))"

definition cancelOrder ::
  "'w shopify_api \<Rightarrow> ShopifyClient \<Rightarrow> nat \<Rightarrow> string \<Rightarrow> 'w commerce \<Rightarrow> (error + unit) \<times> 'w commerce" where
  "cancelOrder api c orderId cancel_reason s =
     (case request api c (PostCancel orderId cancel_reason) s of
        (Inl e, s') \<Rightarrow> (Inl e, s')
      | (Inr b, s') \<Rightarrow> (Inr (), s'))"

section \<open>The PayzCore webhook route\<close>

text \<open>
  The body of a notification, after \<open>JSON.parse\<close>, with the fields of the
  \<open>WebhookPayload\<close> interface (\<open>metadata\<close> is never read). Fields that share a name with
  a field of the payment mapping carry the prefix \<open>p_\<close>. Each handler starts with
  \<open>if (!mapping) return\<close>; the route calls it with the mapping it has found, so the
  handlers here take a mapping and have no such branch.
\<close>

record WebhookPayload =
  event :: string
  payment_id :: string
  external_ref :: string
  external_order_id :: "string option"
  p_network :: string
  p_address :: string
  expected_amount :: string
  paid_amount :: string
  tx_hash :: "string option"
  p_status :: string
  paid_at :: "string option"
  p_timestamp :: string

text \<open>
  The JSON bodies the routes answer with, and those of the monitoring service: a payment
  (the \<open>payment\<close> object of a status query) or \<open>{success}\<close>. The confirm route relays the
  service's answer as it is.
\<close>

record transaction_info =
  tr_tx_hash :: string
  tr_amount :: string
  tr_from :: string
  tr_confirmed :: bool

record payment_info =
  pay_id :: string
  pay_status :: string
  pay_expected_amount :: string
  pay_paid_amount :: string
  pay_address :: string
  pay_network :: string
  pay_token :: "string option"
  pay_tx_hash :: "string option"
  pay_expires_at :: string
  pay_transactions :: "transaction_info list"

datatype payzcore_request =
    GetPayment string
  | ConfirmPayment string string

datatype payzcore_response = PaymentJson payment_info | SuccessJson bool

record status_body =
  sb_status :: string
  sb_paid_amount :: string
  sb_expected_amount :: string
  sb_tx_hash :: "string option"
  sb_transactions :: "transaction_info list"
  is_terminal :: bool
  is_paid :: bool

datatype json_body =
    WebhookJson bool bool "string option"
  | ErrorJson string
  | StatusJson status_body
  | ConfirmJson payzcore_response

record http_response =
  http_code :: nat
  body :: json_body

text \<open>
  Block explorer base URLs for transactions. \<open>NETWORK_EXPLORER_TX\<close> is an object literal
  and the routes index it with whatever network name the payload carries, so a name that
  is no network but a member every object inherits from \<open>Object.prototype\<close> finds that
  member: a function, or for \<open>__proto__\<close> the prototype itself. Each is truthy, and a
  template literal prints it as written here. Any other name finds nothing.
\<close>

definition Object_prototype_member :: "string \<Rightarrow> string option" where
  "Object_prototype_member n =
     (if n = ''__proto__'' then Some ''[object Object]''
      else if n = ''constructor'' then Some ''function Object() { [native code] }''
      else if n \<in> set [''__defineGetter__'', ''__defineSetter__'', ''hasOwnProperty'',
                         ''__lookupGetter__'', ''__lookupSetter__'', ''isPrototypeOf'',
                         ''propertyIsEnumerable'', ''toString'', ''valueOf'', ''toLocaleString'']
      then Some (''function '' @ n @ ''() { [native code] }'')
      else None)"

definition NETWORK_EXPLORER_TX :: "string \<Rightarrow> string option" where
  "NETWORK_EXPLORER_TX n =
     (if n = ''TRC20'' then Some ''https://tronscan.org/#/transaction/''
      else if n = ''BEP20'' then Some ''https://bscscan.com/tx/''
      else if n = ''ERC20'' then Some ''https://etherscan.io/tx/''
      else if n = ''POLYGON'' then Some ''https://polygonscan.com/tx/''
      else if n = ''ARBITRUM'' then Some ''https://arbiscan.io/tx/''
      else Object_prototype_member n)"

text \<open>\<open>lines.filter(Boolean).join('\n')\<close>: null and empty entries are dropped.\<close>

definition filter_Boolean :: "string option list \<Rightarrow> string list" where
  "filter_Boolean xs = concat (map (\<lambda>x. case x of None \<Rightarrow> [] | Some v \<Rightarrow> (if v = [] then [] else [v])) xs)"

definition join_lines :: "string option list \<Rightarrow> string" where
  "join_lines xs = join_with [CHR 0x0A] (filter_Boolean xs)"

text \<open>
  \<open>toLowerCase\<close> on code units up to U+00FF: the letters A to Z and the capital letters
  U+00C0 to U+00DE (the multiplication sign U+00D7 apart) move up by 32; other characters
  stay.
\<close>

definition lower_char :: "char \<Rightarrow> char" where
  "lower_char ch =
     (let n = (of_char ch :: nat)
      in if (65 \<le> n \<and> n \<le> 90) \<or> (192 \<le> n \<and> n \<le> 222 \<and> n \<noteq> 215)
         then char_of (n + 32) else ch)"

definition toLowerCase :: "string \<Rightarrow> string" where
  "toLowerCase s = map lower_char s"

definition success_note :: "WebhookPayload \<Rightarrow> string \<Rightarrow> string" where
  "success_note payload tokenLabel =
     (let explorerUrl =
            (case NETWORK_EXPLORER_TX (p_network payload) of
               Some explorerBase \<Rightarrow> Some (explorerBase @ show_nullable (tx_hash payload))
             | None \<Rightarrow> tx_hash payload)
      in join_lines
          [Some ''Crypto payment received'',
           Some (''Amount: '' @ paid_amount payload @ '' '' @ tokenLabel
                   @ '' ('' @ p_network payload @ '')''),
           Some (''Address: '' @ p_address payload),
           (if truthy (tx_hash payload) then Some (''TX: '' @ show_nullable explorerUrl) else None),
           Some (''Payment ID: '' @ payment_id payload),
           Some (''Detected at: '' @
                   (if truthy (paid_at payload) then show_nullable (paid_at payload)
                    else p_timestamp payload)),
           (if event payload = ''payment.overpaid''
            then Some (''Note: Customer overpaid (expected '' @ expected_amount payload
                         @ '' '' @ tokenLabel @ '')'')
            else None)])"

text \<open>What \<open>handlePaymentSuccess\<close> passes to \<open>markOrderAsPaid\<close>, and the tags it adds.\<close>

definition success_details :: "PaymentMapping \<Rightarrow> WebhookPayload \<Rightarrow> paid_details" where
  "success_details mapping payload =
     \<lparr>det_amount = or_default (paid_amount payload) (amount mapping),
      det_currency = currency mapping,
      det_txHash = tx_hash payload,
      det_network = p_network payload,
      det_token = Some (or_default (token mapping) ''USDT''),
      det_payzCorePaymentId = payment_id payload\<rparr>"

definition success_tags :: "WebhookPayload \<Rightarrow> string \<Rightarrow> string" where
  "success_tags payload tokenLabel =
     (if event payload = ''payment.overpaid''
      then ''crypto-paid, payzcore, '' @ toLowerCase tokenLabel @ '', overpaid''
      else ''crypto-paid, payzcore, '' @ toLowerCase tokenLabel)"

definition handlePaymentSuccess ::
  "'w shopify_api \<Rightarrow> ShopifyClient \<Rightarrow> PaymentMapping \<Rightarrow> WebhookPayload \<Rightarrow> 'w commerce
     \<Rightarrow> (error + unit) \<times> 'w commerce" where
  "handlePaymentSuccess api shopify mapping payload s =
     (let tokenLabel = or_default (token mapping) ''USDT'' in
      case getOrder api shopify (shopifyOrderId mapping) s of
        (checked, s1) \<Rightarrow>
          if (case checked of Inr ord \<Rightarrow> financial_status ord = ''paid'' | Inl e \<Rightarrow> False)
          then (Inr (), s1)
          else
            (case markOrderAsPaid api shopify (shopifyOrderId mapping)
                    (success_details mapping payload) s1 of
               (Inl e, s2) \<Rightarrow> (Inl e, s2)
             | (Inr u, s2) \<Rightarrow>
                 (case addOrderNote api shopify (shopifyOrderId mapping)
                         (success_note payload tokenLabel) s2 of
                    (Inl e, s3) \<Rightarrow> (Inl e, s3)
                  | (Inr u, s3) \<Rightarrow>
                      addOrderTags api shopify (shopifyOrderId mapping)
                        (success_tags payload tokenLabel) s3)))"

text \<open>
  The cancel path of \<open>payment.expired\<close> and \<open>payment.cancelled\<close>: everything runs inside
  one \<open>try\<close> whose \<open>catch\<close> only logs, so the handler never throws.
\<close>

definition cancel_unless_settled ::
  "'w shopify_api \<Rightarrow> ShopifyClient \<Rightarrow> PaymentMapping \<Rightarrow> string \<Rightarrow> string \<Rightarrow> 'w commerce
     \<Rightarrow> (error + unit) \<times> 'w commerce" where
  "cancel_unless_settled api shopify mapping cancel_reason new_tags s =
     (case getOrder api shopify (shopifyOrderId mapping) s of
        (Inl e, s1) \<Rightarrow> (Inr (), s1)
      | (Inr ord, s1) \<Rightarrow>
          if truthy (cancelled_at ord) \<or> financial_status ord = ''paid'' then (Inr (), s1)
          else
            (case cancelOrder api shopify (shopifyOrderId mapping) cancel_reason s1 of
               (Inl e, s2) \<Rightarrow> (Inr (), s2)
             | (Inr u, s2) \<Rightarrow>
                 (case addOrderTags api shopify (shopifyOrderId mapping) new_tags s2 of
                    (r, s3) \<Rightarrow> (Inr (), s3))))"

definition handlePaymentExpired ::
  "'w shopify_api \<Rightarrow> ShopifyClient \<Rightarrow> PaymentMapping \<Rightarrow> WebhookPayload \<Rightarrow> 'w commerce
     \<Rightarrow> (error + unit) \<times> 'w commerce" where
  "handlePaymentExpired api shopify mapping payload s =
     cancel_unless_settled api shopify mapping
       (''Crypto payment expired. The customer did not send '' @ or_default (token mapping) ''USDT''
          @ '' within the payment window. Payment ID: '' @ payment_id payload)
       ''crypto-expired, payzcore'' s"

definition handlePaymentCancelled ::
  "'w shopify_api \<Rightarrow> ShopifyClient \<Rightarrow> PaymentMapping \<Rightarrow> WebhookPayload \<Rightarrow> 'w commerce
     \<Rightarrow> (error + unit) \<times> 'w commerce" where
  "handlePaymentCancelled api shopify mapping payload s =
     cancel_unless_settled api shopify mapping
       (''Crypto payment cancelled by the merchant. Payment ID: '' @ payment_id payload)
       ''crypto-cancelled, payzcore'' s"

definition partial_note :: "WebhookPayload \<Rightarrow> string \<Rightarrow> string" where
  "partial_note payload tokenLabel =
     (let txLink =
            (case NETWORK_EXPLORER_TX (p_network payload) of
               Some explorerBase \<Rightarrow>
                 (if truthy (tx_hash payload)
                  then Some (explorerBase @ show_nullable (tx_hash payload))
                  else tx_hash payload)
             | None \<Rightarrow> tx_hash payload)
      in join_lines
          [Some ''Partial crypto payment detected'',
           Some (''Received: '' @ paid_amount payload @ '' '' @ tokenLabel @ '' (expected: ''
                   @ expected_amount payload @ '' '' @ tokenLabel @ '')''),
           Some (''Network: '' @ p_network payload),
           Some (''Address: '' @ p_address payload),
           (if truthy txLink then Some (''TX: '' @ show_nullable txLink) else None),
           Some (''Payment ID: '' @ payment_id payload),
           Some ''The payment window is still active. Customer may send the remaining amount.''])"

definition handlePaymentPartial ::
  "'w shopify_api \<Rightarrow> ShopifyClient \<Rightarrow> PaymentMapping \<Rightarrow> WebhookPayload \<Rightarrow> 'w commerce
     \<Rightarrow> (error + unit) \<times> 'w commerce" where
  "handlePaymentPartial api shopify mapping payload s =
     (case addOrderNote api shopify (shopifyOrderId mapping)
             (partial_note payload (or_default (token mapping) ''USDT'')) s of
        (Inl e, s1) \<Rightarrow> (Inr (), s1)
      | (Inr u, s1) \<Rightarrow>
          (case addOrderTags api shopify (shopifyOrderId mapping) ''crypto-partial, payzcore'' s1 of
             (r, s2) \<Rightarrow> (Inr (), s2)))"

text \<open>The \<open>switch\<close> on the event name; an unknown event is logged and nothing else.\<close>

definition dispatch_event ::
  "'w shopify_api \<Rightarrow> ShopifyClient \<Rightarrow> PaymentMapping \<Rightarrow> WebhookPayload \<Rightarrow> 'w commerce
     \<Rightarrow> (error + unit) \<times> 'w commerce" where
  "dispatch_event api shopify mapping payload s =
     (if event payload = ''payment.completed'' \<or> event payload = ''payment.overpaid''
      then handlePaymentSuccess api shopify mapping payload s
      else if event payload = ''payment.expired''
      then handlePaymentExpired api shopify mapping payload s
      else if event payload = ''payment.cancelled''
      then handlePaymentCancelled api shopify mapping payload s
      else if event payload = ''payment.partial''
      then handlePaymentPartial api shopify mapping payload s
      else (Inr (), s))"

text \<open>
  \<open>POST /webhooks/payzcore\<close>, after the signature middleware has let the request through.
  The state is the store and the commerce side.
\<close>

definition webhook_route ::
  "'w shopify_api \<Rightarrow> WebhookPayload \<Rightarrow> store \<times> 'w commerce
     \<Rightarrow> http_response \<times> store \<times> 'w commerce" where
  "webhook_route api payload sys =
     (case sys of (st, s) \<Rightarrow>
        (case getPaymentMapping st (payment_id payload) of
           None \<Rightarrow>
             (\<lparr>http_code = 200, body = WebhookJson True False (Some ''no_mapping'')\<rparr>, st, s)
         | Some mapping \<Rightarrow>
             let st1 = updatePaymentMappingStatus st (payment_id payload) (p_status payload) in
             (case getShop st1 (shopDomain mapping) of
                None \<Rightarrow>
                  (\<lparr>http_code = 200, body = WebhookJson True False (Some ''shop_not_found'')\<rparr>,
                   st1, s)
              | Some shopData \<Rightarrow>
                  let shopify = \<lparr>client_shopDomain = shopDomain mapping,
                                 client_accessToken = accessToken shopData\<rparr> in
                  (case dispatch_event api shopify mapping payload s of
                     (Inr u, s') \<Rightarrow>
                       (\<lparr>http_code = 200, body = WebhookJson True True None\<rparr>, st1, s')
                   | (Inl e, s') \<Rightarrow>
                       (\<lparr>http_code = 500,
                         body = WebhookJson True False (Some ''processing_error'')\<rparr>, st1, s')))))"

section \<open>The PayzCore API client and the payment routes\<close>

text \<open>
  The monitoring service is the second outside system, modelled like the first: a machine
  \<open>pz\<close> over a state \<open>'p\<close> that answers a request or fails, and the list of the requests
  sent to it. \<open>getPayment\<close> answers with the \<open>payment\<close> object of the response; a response
  without one makes the status route throw inside its \<open>try\<close>, as a failed call does.
\<close>

type_synonym 'p payzcore_api =
  "payzcore_request \<Rightarrow> 'p \<Rightarrow> payzcore_response option \<times> 'p"

record 'p monitoring =
  service_state :: 'p
  sent :: "payzcore_request list"

definition payzcore_fetch ::
  "'p payzcore_api \<Rightarrow> payzcore_request \<Rightarrow> 'p monitoring
     \<Rightarrow> (error + payzcore_response) \<times> 'p monitoring" where
  "payzcore_fetch pz q m =
     (case pz q (service_state m) of
        (r, p') \<Rightarrow>
          ((case r of None \<Rightarrow> Inl PayzCoreApiError | Some b \<Rightarrow> Inr b),
           \<lparr>service_state = p', sent = sent m @ [q]\<rparr>))"

definition getPayment ::
  "'p payzcore_api \<Rightarrow> string \<Rightarrow> 'p monitoring \<Rightarrow> (error + payment_info) \<times> 'p monitoring" where
  "getPayment pz paymentId m =
     (case payzcore_fetch pz (GetPayment paymentId) m of
        (Inr (PaymentJson payment), m') \<Rightarrow> (Inr payment, m')
      | (Inr (SuccessJson b), m') \<Rightarrow> (Inl PayzCoreApiError, m')
      | (Inl e, m') \<Rightarrow> (Inl e, m'))"

definition confirmPayment ::
  "'p payzcore_api \<Rightarrow> string \<Rightarrow> string \<Rightarrow> 'p monitoring
     \<Rightarrow> (error + payzcore_response) \<times> 'p monitoring" where
  "confirmPayment pz endpoint txHash m =
     (case payzcore_fetch pz (ConfirmPayment endpoint txHash) m of
        (Inr b, m') \<Rightarrow> (Inr b, m')
      | (Inl e, m') \<Rightarrow> (Inl e, m'))"

text \<open>\<open>GET /payment/:paymentId/status\<close>, the endpoint the payment page polls.\<close>

definition status_route ::
  "'p payzcore_api \<Rightarrow> string \<Rightarrow> store \<times> 'p monitoring
     \<Rightarrow> http_response \<times> store \<times> 'p monitoring" where
  "status_route pz paymentId sys =
     (case sys of (st, m) \<Rightarrow>
        (case getPaymentMapping st paymentId of
           None \<Rightarrow> (\<lparr>http_code = 404, body = ErrorJson ''Payment not found''\<rparr>, st, m)
         | Some mapping \<Rightarrow>
             (case getPayment pz paymentId m of
                (Inr payment, m') \<Rightarrow>
                  let st1 = updatePaymentMappingStatus st paymentId (pay_status payment);
                      isTerminal = (pay_status payment \<in> set [''paid'', ''overpaid'', ''expired'', ''cancelled'']);
                      isPaid = (pay_status payment = ''paid'' \<or> pay_status payment = ''overpaid'')
                  in (\<lparr>http_code = 200,
                       body = StatusJson
                         \<lparr>sb_status = pay_status payment,
                          sb_paid_amount = pay_paid_amount payment,
                          sb_expected_amount = pay_expected_amount payment,
                          sb_tx_hash = pay_tx_hash payment,
                          sb_transactions = pay_transactions payment,
                          is_terminal = isTerminal,
                          is_paid = isPaid\<rparr>\<rparr>, st1, m')
              | (Inl e, m') \<Rightarrow>
                  (\<lparr>http_code = 200,
                    body = StatusJson
                      \<lparr>sb_status = status mapping,
                       sb_paid_amount = ''0'',
                       sb_expected_amount = expectedAmount mapping,
                       sb_tx_hash = None,
                       sb_transactions = [],
                       is_terminal = False,
                       is_paid = False\<rparr>\<rparr>, st, m'))))"

text \<open>
  \<open>String.prototype.trim\<close>. Characters are the string's code units, here those up to
  U+00FF; of the white space and line terminators of ECMAScript these are TAB, LF, VT, FF,
  CR, SP and NBSP.
\<close>

definition js_whitespace :: "char \<Rightarrow> bool" where
  "js_whitespace ch = ((of_char ch :: nat) \<in> set [9, 10, 11, 12, 13, 32, 160])"

definition trim :: "string \<Rightarrow> string" where
  "trim s = rev (dropWhile js_whitespace (rev (dropWhile js_whitespace s)))"

text \<open>\<open>s.replace(/^0x/, '')\<close>.\<close>

fun strip_0x :: "string \<Rightarrow> string" where
  "strip_0x (a # b # cs) = (if a = CHR ''0'' \<and> b = CHR ''x'' then cs else a # b # cs)"
| "strip_0x s = s"

definition hex_char :: "char \<Rightarrow> bool" where
  "hex_char ch =
     (let n = (of_char ch :: nat)
      in (48 \<le> n \<and> n \<le> 57) \<or> (97 \<le> n \<and> n \<le> 102) \<or> (65 \<le> n \<and> n \<le> 70))"

text \<open>\<open>/^[a-fA-F0-9]{10,128}$/.test(s)\<close>.\<close>

definition tx_hash_format :: "string \<Rightarrow> bool" where
  "tx_hash_format s = (10 \<le> length s \<and> length s \<le> 128 \<and> list_all hex_char s)"

text \<open>
  The \<open>tx_hash\<close> member of the request body: a string, or anything else (no body, no such
  member, or a value that is not a string).
\<close>

datatype body_field = JString string | JOther

text \<open>\<open>POST /payment/:paymentId/confirm\<close>.\<close>

definition confirm_route ::
  "'p payzcore_api \<Rightarrow> string \<Rightarrow> body_field \<Rightarrow> store \<times> 'p monitoring
     \<Rightarrow> http_response \<times> store \<times> 'p monitoring" where
  "confirm_route pz paymentId field sys =
     (case sys of (st, m) \<Rightarrow>
        (case getPaymentMapping st paymentId of
           None \<Rightarrow> (\<lparr>http_code = 404, body = ErrorJson ''Payment not found''\<rparr>, st, m)
         | Some mapping \<Rightarrow>
             if requiresTxid mapping \<noteq> Some True \<or> \<not> truthy (confirmEndpoint mapping)
             then (\<lparr>http_code = 400,
                    body = ErrorJson ''Transaction hash submission is not required for this payment''\<rparr>,
                   st, m)
             else
               (case field of
                  JOther \<Rightarrow>
                    (\<lparr>http_code = 400, body = ErrorJson ''Missing or invalid tx_hash''\<rparr>, st, m)
                | JString txHash \<Rightarrow>
                    if txHash = [] \<or> length (trim txHash) = 0
                    then (\<lparr>http_code = 400, body = ErrorJson ''Missing or invalid tx_hash''\<rparr>, st, m)
                    else
                      let cleanTxHash = strip_0x (trim txHash) in
                      if \<not> tx_hash_format cleanTxHash
                      then (\<lparr>http_code = 400,
                             body = ErrorJson ''Invalid transaction hash format''\<rparr>, st, m)
                      else
                        (case confirmPayment pz (show_nullable (confirmEndpoint mapping))
                                (trim txHash) m of
                           (Inr r, m') \<Rightarrow> (\<lparr>http_code = 200, body = ConfirmJson r\<rparr>, st, m')
                         | (Inl e, m') \<Rightarrow>
                             (\<lparr>http_code = 500,
                               body = ErrorJson ''Failed to submit transaction hash. Please try again.''\<rparr>,
                              st, m')))))"

section \<open>Webhook signature verification (src/middleware/verify-payzcore.ts)\<close>

text \<open>
  The middleware reads two headers, the clock and the raw body. Three things come from
  the platform and are parameters: \<open>hmac_sha256 key message\<close>, the 32 bytes of the
  HMAC-SHA256 digest; \<open>parse_date\<close>, the milliseconds \<open>new Date(s).getTime()\<close> gives for a
  string, \<open>None\<close> when it gives NaN; and \<open>now\<close>, the milliseconds of \<open>Date.now()\<close>. The raw
  body is the request's body as the string \<open>rawBody.toString('utf8')\<close>, or \<open>None\<close> when the
  request carries no raw body. The outcome is \<open>next()\<close> or a response with an error.
\<close>

datatype verdict = PassOn | Rejected nat string

text \<open>\<open>digest('hex')\<close>: two lower-case hexadecimal digits for each byte.\<close>

definition hex_digit :: "nat \<Rightarrow> char" where
  "hex_digit n = (if n < 10 then char_of (48 + n) else char_of (87 + n))"

definition digest_hex :: "8 word list \<Rightarrow> string" where
  "digest_hex bs = concat (map (\<lambda>b. [hex_digit (unat b div 16), hex_digit (unat b mod 16)]) bs)"

definition hex_value :: "char \<Rightarrow> nat option" where
  "hex_value ch =
     (let n = (of_char ch :: nat)
      in if 48 \<le> n \<and> n \<le> 57 then Some (n - 48)
         else if 97 \<le> n \<and> n \<le> 102 then Some (n - 87)
         else if 65 \<le> n \<and> n \<le> 70 then Some (n - 55)
         else None)"

text \<open>
  \<open>Buffer.from(s, 'hex')\<close>: one byte for each pair of hexadecimal digits, up to the first
  pair that is not one.
\<close>

fun from_hex :: "string \<Rightarrow> 8 word list" where
  "from_hex (a # b # cs) =
     (case hex_value a of
        None \<Rightarrow> []
      | Some x \<Rightarrow> (case hex_value b of None \<Rightarrow> [] | Some y \<Rightarrow> of_nat (16 * x + y) # from_hex cs))"
| "from_hex s = []"

text \<open>\<open>/^[a-f0-9]{64}$/i.test(s)\<close>.\<close>

definition signature_format :: "string \<Rightarrow> bool" where
  "signature_format s = (length s = 64 \<and> list_all hex_char s)"

text \<open>\<open>crypto.timingSafeEqual\<close> throws when the two buffers differ in length.\<close>

definition timingSafeEqual :: "8 word list \<Rightarrow> 8 word list \<Rightarrow> error + bool" where
  "timingSafeEqual a b = (if length a \<noteq> length b then Inl RangeError else Inr (a = b))"

definition verifyPayzCoreWebhook ::
  "(string \<Rightarrow> string \<Rightarrow> 8 word list) \<Rightarrow> (string \<Rightarrow> int option) \<Rightarrow> string \<Rightarrow> int
     \<Rightarrow> string option \<Rightarrow> string option \<Rightarrow> string option \<Rightarrow> verdict" where
  "verifyPayzCoreWebhook hmac_sha256 parse_date webhookSecret now sig_header ts_header rawBody =
     (case sig_header of
        None \<Rightarrow> Rejected 401 ''Missing signature header''
      | Some signature \<Rightarrow>
          if signature = [] then Rejected 401 ''Missing signature header''
          else
            (case ts_header of
               None \<Rightarrow> Rejected 401 ''Missing timestamp header''
             | Some timestamp \<Rightarrow>
                 if timestamp = [] then Rejected 401 ''Missing timestamp header''
                 else
                   (case parse_date timestamp of
                      None \<Rightarrow> Rejected 401 ''Timestamp validation failed''
                    | Some ts \<Rightarrow>
                        if \<bar>now - ts\<bar> > 5 * 60 * 1000
                        then Rejected 401 ''Timestamp validation failed''
                        else
                          (case rawBody of
                             None \<Rightarrow> Rejected 400 ''Missing request body''
                           | Some raw \<Rightarrow>
                               let message = timestamp @ ''.'' @ raw;
                                   expected = digest_hex (hmac_sha256 webhookSecret message)
                               in if \<not> signature_format signature
                                  then Rejected 401 ''Invalid signature''
                                  else
                                    (case timingSafeEqual (from_hex signature) (from_hex expected) of
                                       Inl e \<Rightarrow> Rejected 401 ''Invalid signature''
                                     | Inr isValid \<Rightarrow>
                                         if \<not> isValid then Rejected 401 ''Invalid signature''
                                         else PassOn)))))"


section \<open>The app: observations from both channels\<close>

text \<open>
  Both routers are mounted in one app and share the store module. A push is a request to
  the webhook route and leaves the monitoring service alone; a poll is a request to the
  status route, which has no Shopify client, and leaves the commerce side alone.
\<close>

datatype observation = Push WebhookPayload | Poll string

definition observe ::
  "'w shopify_api \<Rightarrow> 'p payzcore_api \<Rightarrow> observation \<Rightarrow> store \<times> 'w commerce \<times> 'p monitoring
     \<Rightarrow> http_response \<times> store \<times> 'w commerce \<times> 'p monitoring" where
  "observe api pz ob sys =
     (case sys of (st, s, m) \<Rightarrow>
        (case ob of
           Push payload \<Rightarrow>
             (case webhook_route api payload (st, s) of (r, st', s') \<Rightarrow> (r, st', s', m))
         | Poll paymentId \<Rightarrow>
             (case status_route pz paymentId (st, m) of (r, st', m') \<Rightarrow> (r, st', s, m'))))"

text \<open>Notifications delivered one after another.\<close>

fun deliver_all ::
  "'w shopify_api \<Rightarrow> WebhookPayload list \<Rightarrow> store \<times> 'w commerce \<Rightarrow> store \<times> 'w commerce" where
  "deliver_all api [] sys = sys"
| "deliver_all api (payload # rest) sys = deliver_all api rest (snd (webhook_route api payload sys))"

text \<open>The statuses the status route calls terminal.\<close>

definition terminal_status :: "string \<Rightarrow> bool" where
  "terminal_status s = (s \<in> set [''paid'', ''overpaid'', ''expired'', ''cancelled''])"

text \<open>
  Counting what was sent to the commerce system for an order: capture transactions, order
  notes, cancellations.
\<close>

definition is_capture :: "nat \<Rightarrow> shopify_request \<Rightarrow> bool" where
  "is_capture orderId q =
     (case q of PostTransaction i b \<Rightarrow> i = orderId \<and> txn_kind b = ''capture'' | _ \<Rightarrow> False)"

definition is_note :: "nat \<Rightarrow> shopify_request \<Rightarrow> bool" where
  "is_note orderId q = (case q of PutOrderNote i n \<Rightarrow> i = orderId | _ \<Rightarrow> False)"

definition is_cancel :: "nat \<Rightarrow> shopify_request \<Rightarrow> bool" where
  "is_cancel orderId q = (case q of PostCancel i n \<Rightarrow> i = orderId | _ \<Rightarrow> False)"

definition capture_calls :: "nat \<Rightarrow> 'w commerce \<Rightarrow> nat" where
  "capture_calls orderId s = length (filter (is_capture orderId) (map snd (issued s)))"

definition note_calls :: "nat \<Rightarrow> 'w commerce \<Rightarrow> nat" where
  "note_calls orderId s = length (filter (is_note orderId) (map snd (issued s)))"

definition cancel_calls :: "nat \<Rightarrow> 'w commerce \<Rightarrow> nat" where
  "cancel_calls orderId s = length (filter (is_cancel orderId) (map snd (issued s)))"

text \<open>
  What the duplicate check of \<open>handlePaymentSuccess\<close> sees: the order lookup answers, and
  with financial status \<open>paid\<close>.
\<close>

definition reports_paid :: "'w shopify_api \<Rightarrow> ShopifyClient \<Rightarrow> nat \<Rightarrow> 'w \<Rightarrow> bool" where
  "reports_paid api c orderId w =
     (case fst (api c (GetOrder orderId) w) of
        Some (OrderJson ord) \<Rightarrow> financial_status ord = ''paid''
      | Some OtherJson \<Rightarrow> False
      | None \<Rightarrow> False)"

text \<open>
  Two properties a commerce system may have, as seen by one client for one order: once the
  order lookup reports the order paid, it goes on doing so after any further request; and
  a capture transaction succeeds, after which the lookup reports the order paid.
\<close>

definition paid_is_stable :: "'w shopify_api \<Rightarrow> ShopifyClient \<Rightarrow> nat \<Rightarrow> bool" where
  "paid_is_stable api c orderId =
     (\<forall>w q. reports_paid api c orderId w \<longrightarrow> reports_paid api c orderId (snd (api c q w)))"

definition capture_takes_effect :: "'w shopify_api \<Rightarrow> ShopifyClient \<Rightarrow> nat \<Rightarrow> bool" where
  "capture_takes_effect api c orderId =
     (\<forall>w b. fst (api c (PostTransaction orderId b) w) \<noteq> None \<and>
            reports_paid api c orderId (snd (api c (PostTransaction orderId b) w)))"

text \<open>
  In the spec's words: the deadline \<open>expiresAt\<close> of a record has passed at wall-clock time
  \<open>now\<close> (milliseconds, with \<open>parse_date\<close> reading the stored date as above).
\<close>

definition deadline_passed :: "(string \<Rightarrow> int option) \<Rightarrow> int \<Rightarrow> PaymentMapping \<Rightarrow> bool" where
  "deadline_passed parse_date now mapping =
     (case parse_date (expiresAt mapping) of None \<Rightarrow> False | Some deadline \<Rightarrow> deadline < now)"

section \<open>Sample data\<close>

text \<open>A shop, a pending payment of 50 USDT for order #1001, and a store that holds both.\<close>

definition shop0 :: ShopData where
  "shop0 = \<lparr>accessToken = ''shpat_1'', scope = ''read_orders,write_orders'',
            installedAt = ''2025-01-01T00:00:00.000Z''\<rparr>"

definition mapping0 :: PaymentMapping where
  "mapping0 =
     \<lparr>shopDomain = ''demo.myshopify.com'', shopifyOrderId = 1001, shopifyOrderName = ''#1001'',
      amount = ''50.00'', currency = ''USD'', customerEmail = ''a@example.com'',
      network = ''TRC20'', token = ''USDT'', payzCorePaymentId = ''pay_1'',
      address = ''TXYZ'', expectedAmount = ''50'', qrCode = ''qr'',
      expiresAt = ''2025-01-01T01:00:00.000Z'', status = ''pending'',
      createdAt = ''2025-01-01T00:00:00.000Z'', notice = None, requiresTxid = None,
      confirmEndpoint = None\<rparr>"

definition store0 :: store where
  "store0 = \<lparr>shops = [''demo.myshopify.com'' \<mapsto> shop0],
             payments = [''pay_1'' \<mapsto> (mapping0, 3600)]\<rparr>"

text \<open>A notification for that payment.\<close>

definition push0 :: "string \<Rightarrow> string \<Rightarrow> string \<Rightarrow> WebhookPayload" where
  "push0 ev st paid =
     \<lparr>event = ev, payment_id = ''pay_1'', external_ref = ''order-1001'',
      external_order_id = None, p_network = ''TRC20'', p_address = ''TXYZ'',
      expected_amount = ''50'', paid_amount = paid, tx_hash = Some ''abc123'',
      p_status = st, paid_at = None, p_timestamp = ''2025-01-01T00:10:00.000Z''\<rparr>"

text \<open>
  Sample commerce systems. The first keeps one order and does what it is asked; the second
  does the same but cannot answer an order lookup; \<open>shopify_without broken\<close> does the same
  but fails the requests \<open>broken\<close> picks out (\<open>is_tags\<close>: the tag updates); the last
  answers nothing.
\<close>

definition order0 :: ShopifyOrder where
  "order0 =
     \<lparr>order_id = 1001, order_name = ''#1001'', order_email = ''a@example.com'',
      financial_status = ''pending'', total_price = ''50.00'', order_currency = ''USD'',
      created_at = ''2025-01-01T00:00:00.000Z'', cancelled_at = None, order_note = None,
      tags = []\<rparr>"

definition shopify_ok :: "ShopifyOrder shopify_api" where
  "shopify_ok c q w =
     (case q of
        GetOrder i \<Rightarrow> (Some (OrderJson w), w)
      | PostTransaction i b \<Rightarrow> (Some OtherJson, w\<lparr>financial_status := ''paid''\<rparr>)
      | PutOrderNote i n \<Rightarrow> (Some OtherJson, w\<lparr>order_note := Some n\<rparr>)
      | PutOrderTags i t \<Rightarrow> (Some OtherJson, w\<lparr>tags := t\<rparr>)
      | PostCancel i r \<Rightarrow> (Some OtherJson, w\<lparr>cancelled_at := Some ''2025-01-01T02:00:00.000Z''\<rparr>))"

definition shopify_blind :: "ShopifyOrder shopify_api" where
  "shopify_blind c q w = (case q of GetOrder i \<Rightarrow> (None, w) | _ \<Rightarrow> shopify_ok c q w)"


definition shopify_without :: "(shopify_request \<Rightarrow> bool) \<Rightarrow> ShopifyOrder shopify_api" where
  "shopify_without broken c q w = (if broken q then (None, w) else shopify_ok c q w)"

definition shopify_down :: "ShopifyOrder shopify_api" where
  "shopify_down c q w = (None, w)"

definition commerce0 :: "ShopifyOrder commerce" where
  "commerce0 = \<lparr>remote_state = order0, issued = []\<rparr>"

text \<open>A monitoring service that reports a given status, and one that is down.\<close>

definition payment0 :: "string \<Rightarrow> payment_info" where
  "payment0 st =
     \<lparr>pay_id = ''pay_1'', pay_status = st, pay_expected_amount = ''50'',
      pay_paid_amount = ''50'', pay_address = ''TXYZ'', pay_network = ''TRC20'',
      pay_token = Some ''USDT'', pay_tx_hash = Some ''abc123'',
      pay_expires_at = ''2025-01-01T01:00:00.000Z'', pay_transactions = []\<rparr>"

definition payzcore_reports :: "string \<Rightarrow> unit payzcore_api" where
  "payzcore_reports st q p =
     (case q of
        GetPayment i \<Rightarrow> (Some (PaymentJson (payment0 st)), p)
      | ConfirmPayment ep tx \<Rightarrow> (Some (SuccessJson True), p))"

definition payzcore_down :: "unit payzcore_api" where
  "payzcore_down q p = (None, p)"

definition monitoring0 :: "unit monitoring" where
  "monitoring0 = \<lparr>service_state = (), sent = []\<rparr>"

text \<open>The same payment in static wallet mode: the payer must submit a transaction hash.\<close>

definition mapping1 :: PaymentMapping where
  "mapping1 = mapping0\<lparr>requiresTxid := Some True,
                        confirmEndpoint := Some ''/v1/payments/pay_1/confirm''\<rparr>"

definition store1 :: store where
  "store1 = store0\<lparr>payments := [''pay_1'' \<mapsto> (mapping1, 3600)]\<rparr>"

text \<open>The store once that payment is recorded as paid, and the paid order.\<close>

definition paid_store :: store where
  "paid_store = store0\<lparr>payments := [''pay_1'' \<mapsto> (mapping0\<lparr>status := ''paid''\<rparr>, 3600)]\<rparr>"

definition paid_commerce :: "ShopifyOrder commerce" where
  "paid_commerce = \<lparr>remote_state = order0\<lparr>financial_status := ''paid''\<rparr>, issued = []\<rparr>"

text \<open>A date parser that knows the two dates of the sample data.\<close>

definition parse_date0 :: "string \<Rightarrow> int option" where
  "parse_date0 s =
     (if s = ''2025-01-01T01:00:00.000Z'' then Some 1735693200000
      else if s = ''2025-01-01T00:10:00.000Z'' then Some 1735690200000
      else None)"

text \<open>
  A stand-in for the digest function in the examples below: 31 zero bytes, then the sum of
  the characters of the key and the message.
\<close>

definition checksum_hmac :: "string \<Rightarrow> string \<Rightarrow> 8 word list" where
  "checksum_hmac key message =
     replicate 31 0 @ [of_nat (sum_list (map of_char (key @ message)))]"

section \<open>The store\<close>

lemma getPaymentMapping_Some:
  "payments st paymentId = Some (m, t) \<Longrightarrow> getPaymentMapping st paymentId = Some m"
  by (simp add: getPaymentMapping_def)

lemma getPaymentMapping_None:
  "payments st paymentId = None \<Longrightarrow> getPaymentMapping st paymentId = None"
  by (simp add: getPaymentMapping_def)

lemma update_Some:
  "payments st paymentId = Some (m, t) \<Longrightarrow>
   updatePaymentMappingStatus st paymentId s =
     st\<lparr>payments := (payments st)(paymentId \<mapsto> (m\<lparr>status := s\<rparr>, if 0 < t then t else PAYMENT_TTL))\<rparr>"
  by (simp add: updatePaymentMappingStatus_def getPaymentMapping_def redis_ttl_def)

lemma update_None:
  "payments st paymentId = None \<Longrightarrow> updatePaymentMappingStatus st paymentId s = st"
  by (simp add: updatePaymentMappingStatus_def getPaymentMapping_def)

text \<open>
  C10. \<open>updatePaymentMappingStatus\<close> does nothing when the store has no mapping for the
  payment id. When it has one, the stored mapping afterwards carries the new status and is
  otherwise the mapping it was (field by field, and as a whole once the old status is put
  back); the key's remaining time to live is kept when it is positive and is 7 days
  otherwise; every other key and every shop is as before.
\<close>

theorem updatePaymentMappingStatus_frame:
  "(payments st paymentId = None \<longrightarrow> updatePaymentMappingStatus st paymentId s = st) \<and>
   (payments st paymentId = Some (m, t) \<longrightarrow>
      (case payments (updatePaymentMappingStatus st paymentId s) paymentId of
         None \<Rightarrow> False
       | Some (m', t') \<Rightarrow>
           status m' = s \<and> m'\<lparr>status := status m\<rparr> = m \<and>
           shopDomain m' = shopDomain m \<and> shopifyOrderId m' = shopifyOrderId m \<and>
           shopifyOrderName m' = shopifyOrderName m \<and> amount m' = amount m \<and>
           currency m' = currency m \<and> network m' = network m \<and> token m' = token m \<and>
           address m' = address m \<and> expectedAmount m' = expectedAmount m \<and>
           expiresAt m' = expiresAt m \<and> createdAt m' = createdAt m \<and>
           notice m' = notice m \<and> requiresTxid m' = requiresTxid m \<and>
           confirmEndpoint m' = confirmEndpoint m \<and>
           t' = (if 0 < t then t else 7 * 86400)) \<and>
      (\<forall>k. k \<noteq> paymentId \<longrightarrow>
         payments (updatePaymentMappingStatus st paymentId s) k = payments st k) \<and>
      shops (updatePaymentMappingStatus st paymentId s) = shops st)"
  by (simp add: update_Some update_None PAYMENT_TTL_def)

theorem updatePaymentMappingStatus_frame_witness:
  "payments store0 ''pay_2'' = None \<and>
   updatePaymentMappingStatus store0 ''pay_2'' ''paid'' = store0 \<and>
   payments store0 ''pay_1'' = Some (mapping0, 3600) \<and>
   payments (updatePaymentMappingStatus store0 ''pay_1'' ''paid'') ''pay_1''
     = Some (mapping0\<lparr>status := ''paid''\<rparr>, 3600) \<and>
   payments (store0\<lparr>payments := [''pay_1'' \<mapsto> (mapping0, - 1)]\<rparr>) ''pay_1''
     = Some (mapping0, - 1) \<and>
   payments (updatePaymentMappingStatus
               (store0\<lparr>payments := [''pay_1'' \<mapsto> (mapping0, - 1)]\<rparr>) ''pay_1'' ''paid'') ''pay_1''
     = Some (mapping0\<lparr>status := ''paid''\<rparr>, 604800) \<and>
   shops (updatePaymentMappingStatus store0 ''pay_1'' ''paid'') = shops store0"
  using updatePaymentMappingStatus_frame [of store0 "''pay_2''" "''paid''" mapping0 3600]
        updatePaymentMappingStatus_frame [of store0 "''pay_1''" "''paid''" mapping0 3600]
        updatePaymentMappingStatus_frame
          [of "store0\<lparr>payments := [''pay_1'' \<mapsto> (mapping0, - 1)]\<rparr>" "''pay_1''" "''paid''"
              mapping0 "- 1"]
  by (simp add: store0_def update_Some PAYMENT_TTL_def)

section \<open>The status route when the monitoring service fails\<close>

text \<open>
  C8. For a payment id with a stored mapping, when the query to the monitoring service
  fails, the status route answers 200 with the mapping's cached status, the mapping's
  expected amount, \<open>paid_amount = '0'\<close>, no transaction, \<open>is_terminal = false\<close> and
  \<open>is_paid = false\<close>, and leaves the store as it was.
\<close>

theorem status_route_upstream_failure:
  assumes "getPaymentMapping st paymentId = Some mapping"
      and "fst (getPayment pz paymentId m) = Inl e"
  shows "fst (status_route pz paymentId (st, m)) =
           \<lparr>http_code = 200,
            body = StatusJson
              \<lparr>sb_status = status mapping, sb_paid_amount = ''0'',
               sb_expected_amount = expectedAmount mapping, sb_tx_hash = None,
               sb_transactions = [], is_terminal = False, is_paid = False\<rparr>\<rparr>
         \<and> fst (snd (status_route pz paymentId (st, m))) = st"
  using assms
  by (cases "getPayment pz paymentId m") (auto simp: status_route_def split: sum.splits)

theorem status_route_upstream_failure_witness:
  "getPaymentMapping store0 ''pay_1'' = Some mapping0 \<and>
   fst (getPayment payzcore_down ''pay_1'' monitoring0) = Inl PayzCoreApiError \<and>
   fst (status_route payzcore_down ''pay_1'' (store0, monitoring0)) =
           \<lparr>http_code = 200,
            body = StatusJson
              \<lparr>sb_status = ''pending'', sb_paid_amount = ''0'',
               sb_expected_amount = ''50'', sb_tx_hash = None,
               sb_transactions = [], is_terminal = False, is_paid = False\<rparr>\<rparr>"
proof -
  have a: "getPaymentMapping store0 ''pay_1'' = Some mapping0"
    by (simp add: getPaymentMapping_def store0_def)
  have b: "fst (getPayment payzcore_down ''pay_1'' monitoring0) = Inl PayzCoreApiError"
    by (simp add: getPayment_def payzcore_fetch_def payzcore_down_def)
  show ?thesis
    using a b status_route_upstream_failure [OF a b]
    by (simp add: mapping0_def)
qed

section \<open>The confirm route\<close>

lemma confirmPayment_eq:
  "confirmPayment pz ep tx m =
     ((case fst (pz (ConfirmPayment ep tx) (service_state m)) of
         None \<Rightarrow> Inl PayzCoreApiError | Some b \<Rightarrow> Inr b),
      \<lparr>service_state = snd (pz (ConfirmPayment ep tx) (service_state m)),
       sent = sent m @ [ConfirmPayment ep tx]\<rparr>)"
  by (simp add: confirmPayment_def payzcore_fetch_def split: prod.splits option.splits)

lemma tx_hash_format_nonempty: "tx_hash_format (strip_0x s) \<Longrightarrow> s \<noteq> []"
  by (auto simp: tx_hash_format_def)

lemma confirm_route_rejects:
  assumes "getPaymentMapping st paymentId = Some mapping"
      and "requiresTxid mapping = Some True"
      and "confirmEndpoint mapping = Some ep" and "ep \<noteq> []"
      and "\<not> tx_hash_format (strip_0x (trim txHash))"
  shows "confirm_route pz paymentId (JString txHash) (st, m) =
           (\<lparr>http_code = 400,
             body = ErrorJson (if trim txHash = [] then ''Missing or invalid tx_hash''
                               else ''Invalid transaction hash format'')\<rparr>, st, m)"
  using assms by (auto simp: confirm_route_def truthy_def Let_def trim_def)

lemma confirm_route_forwards:
  assumes "getPaymentMapping st paymentId = Some mapping"
      and "requiresTxid mapping = Some True"
      and "confirmEndpoint mapping = Some ep" and "ep \<noteq> []"
      and f: "tx_hash_format (strip_0x (trim txHash))"
  shows "confirm_route pz paymentId (JString txHash) (st, m) =
           ((case fst (pz (ConfirmPayment ep (trim txHash)) (service_state m)) of
               Some r \<Rightarrow> \<lparr>http_code = 200, body = ConfirmJson r\<rparr>
             | None \<Rightarrow> \<lparr>http_code = 500,
                  body = ErrorJson ''Failed to submit transaction hash. Please try again.''\<rparr>),
            st,
            \<lparr>service_state = snd (pz (ConfirmPayment ep (trim txHash)) (service_state m)),
             sent = sent m @ [ConfirmPayment ep (trim txHash)]\<rparr>)"
proof -
  from f have ne: "trim txHash \<noteq> []" by (rule tx_hash_format_nonempty)
  then have ne': "txHash \<noteq> []" by (auto simp: trim_def)
  show ?thesis
    using assms ne ne'
    by (simp add: confirm_route_def truthy_def Let_def show_nullable_def confirmPayment_eq
             split: option.splits)
qed

text \<open>
  C9. For a stored record with \<open>requiresTxid\<close> set and a confirm endpoint: a \<open>tx_hash\<close>
  that is not a string, or that after trimming and stripping one leading \<open>0x\<close> is not 10
  to 128 hexadecimal digits, is answered with 400 and nothing is sent to the monitoring
  service; a conforming one is sent, trimmed, to the record's confirm endpoint, and the
  route answers with the service's reply (500 when the call fails).
\<close>

theorem confirm_route_tx_hash:
  assumes "getPaymentMapping st paymentId = Some mapping"
      and "requiresTxid mapping = Some True"
      and "confirmEndpoint mapping = Some ep" and "ep \<noteq> []"
  shows "http_code (fst (confirm_route pz paymentId JOther (st, m))) = 400 \<and>
         snd (confirm_route pz paymentId JOther (st, m)) = (st, m) \<and>
         (\<not> tx_hash_format (strip_0x (trim txHash)) \<longrightarrow>
            http_code (fst (confirm_route pz paymentId (JString txHash) (st, m))) = 400 \<and>
            snd (confirm_route pz paymentId (JString txHash) (st, m)) = (st, m)) \<and>
         (tx_hash_format (strip_0x (trim txHash)) \<longrightarrow>
            sent (snd (snd (confirm_route pz paymentId (JString txHash) (st, m))))
              = sent m @ [ConfirmPayment ep (trim txHash)] \<and>
            fst (confirm_route pz paymentId (JString txHash) (st, m))
              = (case fst (pz (ConfirmPayment ep (trim txHash)) (service_state m)) of
                   Some r \<Rightarrow> \<lparr>http_code = 200, body = ConfirmJson r\<rparr>
                 | None \<Rightarrow> \<lparr>http_code = 500,
                      body = ErrorJson ''Failed to submit transaction hash. Please try again.''\<rparr>))"
proof -
  have "confirm_route pz paymentId JOther (st, m) =
          (\<lparr>http_code = 400, body = ErrorJson ''Missing or invalid tx_hash''\<rparr>, st, m)"
    using assms by (simp add: confirm_route_def truthy_def)
  then show ?thesis
    using confirm_route_rejects [OF assms, of txHash pz m]
          confirm_route_forwards [OF assms, of txHash pz m]
    by simp
qed

lemma trim_example: "trim '' 0x1234567890abcdef '' = ''0x1234567890abcdef''"
  by (simp add: trim_def js_whitespace_def)

theorem confirm_route_tx_hash_witness:
  "getPaymentMapping store1 ''pay_1'' = Some mapping1 \<and>
   requiresTxid mapping1 = Some True \<and>
   confirmEndpoint mapping1 = Some ''/v1/payments/pay_1/confirm'' \<and>
   tx_hash_format (strip_0x (trim '' 0x1234567890abcdef '')) \<and>
   sent (snd (snd (confirm_route (payzcore_reports ''pending'') ''pay_1''
                     (JString '' 0x1234567890abcdef '') (store1, monitoring0))))
     = [ConfirmPayment ''/v1/payments/pay_1/confirm'' ''0x1234567890abcdef''] \<and>
   fst (confirm_route (payzcore_reports ''pending'') ''pay_1''
          (JString '' 0x1234567890abcdef '') (store1, monitoring0))
     = \<lparr>http_code = 200, body = ConfirmJson (SuccessJson True)\<rparr> \<and>
   \<not> tx_hash_format (strip_0x (trim ''0Xabcdef1234567890'')) \<and>
   http_code (fst (confirm_route (payzcore_reports ''pending'') ''pay_1''
                     (JString ''0Xabcdef1234567890'') (store1, monitoring0))) = 400 \<and>
   http_code (fst (confirm_route (payzcore_reports ''pending'') ''pay_1'' JOther
                     (store1, monitoring0))) = 400"
proof -
  have a: "getPaymentMapping store1 ''pay_1'' = Some mapping1"
    by (simp add: getPaymentMapping_def store1_def)
  have b: "requiresTxid mapping1 = Some True" by (simp add: mapping1_def)
  have c: "confirmEndpoint mapping1 = Some ''/v1/payments/pay_1/confirm''"
    by (simp add: mapping1_def)
  have d: "''/v1/payments/pay_1/confirm'' \<noteq> []" by simp
  have good: "tx_hash_format (strip_0x (trim '' 0x1234567890abcdef ''))"
    by (simp add: trim_example tx_hash_format_def hex_char_def)
  have bad: "\<not> tx_hash_format (strip_0x (trim ''0Xabcdef1234567890''))"
    by (simp add: tx_hash_format_def hex_char_def trim_def js_whitespace_def)
  show ?thesis
    using a b c good bad
      confirm_route_tx_hash [OF a b c d, of "payzcore_reports ''pending''" monitoring0
         "'' 0x1234567890abcdef ''"]
      confirm_route_tx_hash [OF a b c d, of "payzcore_reports ''pending''" monitoring0
         "''0Xabcdef1234567890''"]
    by (simp add: trim_example payzcore_reports_def monitoring0_def)
qed

section \<open>The webhook route and the store\<close>

lemma getShop_update [simp]:
  "getShop (updatePaymentMappingStatus st paymentId x) d = getShop st d"
  by (simp add: getShop_def updatePaymentMappingStatus_def Let_def split: option.splits)

lemma getPaymentMapping_update:
  "getPaymentMapping (updatePaymentMappingStatus st paymentId x) k =
     (if k = paymentId then map_option (\<lambda>m. m\<lparr>status := x\<rparr>) (getPaymentMapping st paymentId)
      else getPaymentMapping st k)"
  by (simp add: getPaymentMapping_def updatePaymentMappingStatus_def Let_def split: option.splits)

lemma stored_status_update:
  "stored_status (updatePaymentMappingStatus st paymentId x) paymentId =
     map_option (\<lambda>s. x) (stored_status st paymentId)"
  by (simp add: stored_status_def getPaymentMapping_update option.map_comp comp_def)

lemma webhook_route_store:
  "fst (snd (webhook_route api payload (st, s))) =
     updatePaymentMappingStatus st (payment_id payload) (p_status payload)"
  by (simp add: webhook_route_def Let_def updatePaymentMappingStatus_def
           split: option.splits prod.splits sum.splits)

lemma webhook_route_found:
  assumes "getPaymentMapping st (payment_id payload) = Some mapping"
      and "getShop st (shopDomain mapping) = Some shopData"
  shows "webhook_route api payload (st, s) =
           (case dispatch_event api
                   \<lparr>client_shopDomain = shopDomain mapping,
                    client_accessToken = accessToken shopData\<rparr> mapping payload s of
              (Inr u, s') \<Rightarrow>
                (\<lparr>http_code = 200, body = WebhookJson True True None\<rparr>,
                 updatePaymentMappingStatus st (payment_id payload) (p_status payload), s')
            | (Inl e, s') \<Rightarrow>
                (\<lparr>http_code = 500, body = WebhookJson True False (Some ''processing_error'')\<rparr>,
                 updatePaymentMappingStatus st (payment_id payload) (p_status payload), s'))"
  using assms by (simp add: webhook_route_def Let_def)

lemma status_route_store:
  "fst (snd (status_route pz paymentId (st, m))) =
     (case fst (getPayment pz paymentId m) of
        Inr payment \<Rightarrow> updatePaymentMappingStatus st paymentId (pay_status payment)
      | Inl e \<Rightarrow> st)"
  by (cases "getPayment pz paymentId m")
     (auto simp: status_route_def Let_def updatePaymentMappingStatus_def
           split: option.splits sum.splits)

section \<open>What each client call sends\<close>

lemma request_eq:
  "request api c q s =
     ((case fst (api c q (remote_state s)) of None \<Rightarrow> Inl ShopifyApiError | Some b \<Rightarrow> Inr b),
      \<lparr>remote_state = snd (api c q (remote_state s)), issued = issued s @ [(c, q)]\<rparr>)"
  by (simp add: request_def split: prod.splits)

lemma getOrder_eq:
  "getOrder api c orderId s =
     ((case fst (api c (GetOrder orderId) (remote_state s)) of
         Some (OrderJson ord) \<Rightarrow> Inr ord
       | Some OtherJson \<Rightarrow> Inl ShopifyApiError
       | None \<Rightarrow> Inl ShopifyApiError),
      snd (request api c (GetOrder orderId) s))"
  by (simp add: getOrder_def request_eq split: option.splits shopify_response.splits)

lemma markOrderAsPaid_eq:
  "markOrderAsPaid api c orderId details s =
     ((case fst (api c (PostTransaction orderId (capture_transaction details)) (remote_state s)) of
         None \<Rightarrow> Inl ShopifyApiError | Some b \<Rightarrow> Inr ()),
      snd (request api c (PostTransaction orderId (capture_transaction details)) s))"
  by (simp add: markOrderAsPaid_def request_eq split: option.splits)

lemma addOrderNote_eq:
  "addOrderNote api c orderId n s =
     ((case fst (api c (PutOrderNote orderId n) (remote_state s)) of
         None \<Rightarrow> Inl ShopifyApiError | Some b \<Rightarrow> Inr ()),
      snd (request api c (PutOrderNote orderId n) s))"
  by (simp add: addOrderNote_def request_eq split: option.splits)

lemma cancelOrder_eq:
  "cancelOrder api c orderId n s =
     ((case fst (api c (PostCancel orderId n) (remote_state s)) of
         None \<Rightarrow> Inl ShopifyApiError | Some b \<Rightarrow> Inr ()),
      snd (request api c (PostCancel orderId n) s))"
  by (simp add: cancelOrder_def request_eq split: option.splits)

lemma addOrderTags_eq:
  "addOrderTags api c orderId new_tags s =
     (case fst (api c (GetOrder orderId) (remote_state s)) of
        Some (OrderJson ord) \<Rightarrow>
          ((case fst (api c (PutOrderTags orderId (merge_tags (tags ord) new_tags))
                        (snd (api c (GetOrder orderId) (remote_state s)))) of
              None \<Rightarrow> Inl ShopifyApiError | Some b \<Rightarrow> Inr ()),
           snd (request api c (PutOrderTags orderId (merge_tags (tags ord) new_tags))
                  (snd (request api c (GetOrder orderId) s))))
      | Some OtherJson \<Rightarrow> (Inl ShopifyApiError, snd (request api c (GetOrder orderId) s))
      | None \<Rightarrow> (Inl ShopifyApiError, snd (request api c (GetOrder orderId) s)))"
  by (simp add: addOrderTags_def getOrder_eq request_eq split: option.splits shopify_response.splits)

lemma capture_calls_request:
  "capture_calls i (snd (request api c q s)) = capture_calls i s + (if is_capture i q then 1 else 0)"
  by (simp add: capture_calls_def request_eq)

lemma note_calls_request:
  "note_calls i (snd (request api c q s)) = note_calls i s + (if is_note i q then 1 else 0)"
  by (simp add: note_calls_def request_eq)

lemma cancel_calls_request:
  "cancel_calls i (snd (request api c q s)) = cancel_calls i s + (if is_cancel i q then 1 else 0)"
  by (simp add: cancel_calls_def request_eq)

lemma remote_state_request:
  "remote_state (snd (request api c q s)) = snd (api c q (remote_state s))"
  by (simp add: request_eq)

lemmas counts = capture_calls_request note_calls_request cancel_calls_request
  is_capture_def is_note_def is_cancel_def

lemma getOrder_counts:
  "capture_calls i (snd (getOrder api c orderId s)) = capture_calls i s"
  "note_calls i (snd (getOrder api c orderId s)) = note_calls i s"
  "cancel_calls i (snd (getOrder api c orderId s)) = cancel_calls i s"
  by (simp_all add: getOrder_eq counts)

lemma addOrderTags_counts:
  "capture_calls i (snd (addOrderTags api c orderId t s)) = capture_calls i s"
  "note_calls i (snd (addOrderTags api c orderId t s)) = note_calls i s"
  "cancel_calls i (snd (addOrderTags api c orderId t s)) = cancel_calls i s"
  by (simp_all add: addOrderTags_eq counts split: option.splits shopify_response.splits)

lemma addOrderNote_counts:
  "capture_calls i (snd (addOrderNote api c orderId t s)) = capture_calls i s"
  "note_calls i (snd (addOrderNote api c orderId t s)) = note_calls i s + (if i = orderId then 1 else 0)"
  "cancel_calls i (snd (addOrderNote api c orderId t s)) = cancel_calls i s"
  by (simp_all add: addOrderNote_eq counts)

lemma cancelOrder_counts:
  "capture_calls i (snd (cancelOrder api c orderId t s)) = capture_calls i s"
  "note_calls i (snd (cancelOrder api c orderId t s)) = note_calls i s"
  "cancel_calls i (snd (cancelOrder api c orderId t s)) = cancel_calls i s + (if i = orderId then 1 else 0)"
  by (simp_all add: cancelOrder_eq counts)

lemma capture_transaction_kind [simp]: "txn_kind (capture_transaction d) = ''capture''"
  by (simp add: capture_transaction_def Let_def)

lemma markOrderAsPaid_counts:
  "capture_calls i (snd (markOrderAsPaid api c orderId d s)) = capture_calls i s + (if i = orderId then 1 else 0)"
  "note_calls i (snd (markOrderAsPaid api c orderId d s)) = note_calls i s"
  "cancel_calls i (snd (markOrderAsPaid api c orderId d s)) = cancel_calls i s"
  by (simp_all add: markOrderAsPaid_eq counts)

lemma handlePaymentPartial_notes:
  "note_calls (shopifyOrderId mapping) (snd (handlePaymentPartial api c mapping payload s))
     = note_calls (shopifyOrderId mapping) s + 1"
  by (simp add: handlePaymentPartial_def split_beta addOrderNote_counts addOrderTags_counts
           split: sum.splits)



lemma checked_paid:
  "(case fst (getOrder api c i s) of Inr ord \<Rightarrow> financial_status ord = ''paid'' | Inl e \<Rightarrow> False)
     = reports_paid api c i (remote_state s)"
  by (simp add: getOrder_eq reports_paid_def split: option.splits shopify_response.splits)

lemma handlePaymentSuccess_paid:
  "reports_paid api c (shopifyOrderId mapping) (remote_state s) \<Longrightarrow>
   handlePaymentSuccess api c mapping payload s
     = (Inr (), snd (getOrder api c (shopifyOrderId mapping) s))"
  by (simp add: handlePaymentSuccess_def Let_def split_beta checked_paid)

section \<open>The stored status after an observation\<close>

lemma stored_status_store0 [simp]: "stored_status store0 ''pay_1'' = Some ''pending''"
  by (simp add: stored_status_def getPaymentMapping_def store0_def mapping0_def)

lemma stored_status_paid_store [simp]: "stored_status paid_store ''pay_1'' = Some ''paid''"
  by (simp add: stored_status_def getPaymentMapping_def paid_store_def)

lemma payment_id_push0 [simp]: "payment_id (push0 ev x a) = ''pay_1''"
  and p_status_push0 [simp]: "p_status (push0 ev x a) = x"
  and event_push0 [simp]: "event (push0 ev x a) = ev"
  and paid_amount_push0 [simp]: "paid_amount (push0 ev x a) = a"
  by (simp_all add: push0_def)

text \<open>
  C1 (as amended). For every stored payment record, whatever its status and so also when
  it is terminal, a webhook delivery for the payment sets the stored status to the status
  the delivery carries, and a status poll sets it to the status the monitoring service
  reports; only a poll whose query fails leaves it as it was. A terminal status therefore
  survives an observation only if the observation reports the same status.
\<close>

theorem observations_overwrite_status:
  assumes "stored_status st paymentId = Some s0"
  shows "(payment_id payload = paymentId \<longrightarrow>
            stored_status (fst (snd (webhook_route api payload (st, s)))) paymentId
              = Some (p_status payload)) \<and>
         stored_status (fst (snd (status_route pz paymentId (st, m)))) paymentId
           = (case fst (getPayment pz paymentId m) of
                Inr payment \<Rightarrow> Some (pay_status payment)
              | Inl e \<Rightarrow> Some s0)"
  using assms
  by (simp add: webhook_route_store status_route_store stored_status_update split: sum.splits)

lemma getPayment_reports [simp]:
  "fst (getPayment (payzcore_reports x) i monitoring0) = Inr (payment0 x)"
  by (simp add: getPayment_def payzcore_fetch_def payzcore_reports_def)

lemma getPayment_down [simp]:
  "fst (getPayment payzcore_down i monitoring0) = Inl PayzCoreApiError"
  by (simp add: getPayment_def payzcore_fetch_def payzcore_down_def)

lemma pay_status_payment0 [simp]: "pay_status (payment0 x) = x"
  by (simp add: payment0_def)

theorem observations_overwrite_status_witness:
  "stored_status paid_store ''pay_1'' = Some ''paid'' \<and>
   stored_status (fst (snd (webhook_route shopify_ok (push0 ''payment.completed'' ''paid'' ''50'')
                              (paid_store, paid_commerce)))) ''pay_1'' = Some ''paid'' \<and>
   stored_status (fst (snd (status_route (payzcore_reports ''overpaid'') ''pay_1''
                              (paid_store, monitoring0)))) ''pay_1'' = Some ''overpaid''"
  using observations_overwrite_status [of paid_store "''pay_1''" "''paid''"
          "push0 ''payment.completed'' ''paid'' ''50''" shopify_ok paid_commerce
          "payzcore_reports ''overpaid''" monitoring0]
  by simp

text \<open>
  A \<open>paid\<close> record (of a paid order) that receives a \<open>status=expired\<close> push is \<open>expired\<close>
  afterwards, and one whose poll reports \<open>pending\<close> is \<open>pending\<close> afterwards.
\<close>

theorem terminal_status_counterexample:
  "terminal_status ''paid'' \<and>
   stored_status paid_store ''pay_1'' = Some ''paid'' \<and>
   stored_status (fst (snd (webhook_route shopify_ok (push0 ''payment.expired'' ''expired'' ''0'')
                              (paid_store, paid_commerce)))) ''pay_1'' = Some ''expired'' \<and>
   stored_status (fst (snd (status_route (payzcore_reports ''pending'') ''pay_1''
                              (paid_store, monitoring0)))) ''pay_1'' = Some ''pending''"
  by (simp add: terminal_status_def webhook_route_store status_route_store stored_status_update)

text \<open>
  C5 (as amended). For every record in a non-terminal status whose \<open>expiresAt\<close> has
  passed, the next observation sets the stored status to the status the observation
  reports (a push: the status of the payload; a poll: the status the monitoring service
  reports, or no change when its query fails). Neither route reads \<open>expiresAt\<close> or the
  clock.
\<close>

theorem passed_deadline_not_enforced:
  assumes "getPaymentMapping st paymentId = Some mapping"
      and "\<not> terminal_status (status mapping)"
      and "deadline_passed parse_date now mapping"
  shows "(payment_id payload = paymentId \<longrightarrow>
            stored_status (fst (snd (webhook_route api payload (st, s)))) paymentId
              = Some (p_status payload)) \<and>
         stored_status (fst (snd (status_route pz paymentId (st, m)))) paymentId
           = (case fst (getPayment pz paymentId m) of
                Inr payment \<Rightarrow> Some (pay_status payment)
              | Inl e \<Rightarrow> Some (status mapping))"
proof -
  from assms(1) have "stored_status st paymentId = Some (status mapping)"
    by (simp add: stored_status_def)
  then show ?thesis
    by (simp add: webhook_route_store status_route_store stored_status_update split: sum.splits)
qed

lemma deadline0: "deadline_passed parse_date0 1735700000000 mapping0"
  by (simp add: deadline_passed_def parse_date0_def mapping0_def)

theorem passed_deadline_not_enforced_witness:
  "getPaymentMapping store0 ''pay_1'' = Some mapping0 \<and>
   \<not> terminal_status (status mapping0) \<and>
   deadline_passed parse_date0 1735700000000 mapping0 \<and>
   stored_status (fst (snd (webhook_route shopify_ok (push0 ''payment.partial'' ''partial'' ''30'')
                              (store0, commerce0)))) ''pay_1'' = Some ''partial'' \<and>
   stored_status (fst (snd (status_route (payzcore_reports ''confirming'') ''pay_1''
                              (store0, monitoring0)))) ''pay_1'' = Some ''confirming''"
proof -
  have a: "getPaymentMapping store0 ''pay_1'' = Some mapping0"
    by (simp add: getPaymentMapping_def store0_def)
  have b: "\<not> terminal_status (status mapping0)"
    by (simp add: terminal_status_def mapping0_def)
  show ?thesis
    using a b deadline0
      passed_deadline_not_enforced [OF a b deadline0,
        of "push0 ''payment.partial'' ''partial'' ''30''" shopify_ok commerce0
           "payzcore_reports ''confirming''" monitoring0]
    by simp
qed

text \<open>
  A \<open>pending\<close> record whose deadline has passed stays \<open>pending\<close> when the next push, or
  the next poll, reports \<open>pending\<close>.
\<close>

theorem passed_deadline_counterexample:
  "status mapping0 = ''pending'' \<and> \<not> terminal_status (status mapping0) \<and>
   getPaymentMapping store0 ''pay_1'' = Some mapping0 \<and>
   deadline_passed parse_date0 1735700000000 mapping0 \<and>
   stored_status (fst (snd (webhook_route shopify_ok (push0 ''payment.pending'' ''pending'' ''0'')
                              (store0, commerce0)))) ''pay_1'' = Some ''pending'' \<and>
   stored_status (fst (snd (status_route (payzcore_reports ''pending'') ''pay_1''
                              (store0, monitoring0)))) ''pay_1'' = Some ''pending''"
proof -
  have a: "getPaymentMapping store0 ''pay_1'' = Some mapping0"
    by (simp add: getPaymentMapping_def store0_def)
  have b: "status mapping0 = ''pending''" by (simp add: mapping0_def)
  show ?thesis
    using a b deadline0
    by (simp add: terminal_status_def webhook_route_store status_route_store stored_status_update)
qed

section \<open>The webhook route when the commerce side fails\<close>





lemma webhook_route_commerce:
  assumes "getPaymentMapping st (payment_id payload) = Some mapping"
      and "getShop st (shopDomain mapping) = Some shopData"
  shows "snd (snd (webhook_route api payload (st, s))) =
           snd (dispatch_event api
                  \<lparr>client_shopDomain = shopDomain mapping,
                   client_accessToken = accessToken shopData\<rparr> mapping payload s)"
  by (simp add: webhook_route_found [OF assms] split_beta split: sum.splits)




lemma store0_mapping [simp]: "getPaymentMapping store0 ''pay_1'' = Some mapping0"
  by (simp add: getPaymentMapping_def store0_def)

lemma store0_shop [simp]: "getShop store0 (shopDomain mapping0) = Some shop0"
  by (simp add: getShop_def store0_def mapping0_def)

lemma shopifyOrderId_mapping0 [simp]: "shopifyOrderId mapping0 = 1001"
  by (simp add: mapping0_def)

lemma remote_state_commerce0 [simp]: "remote_state commerce0 = order0"
  by (simp add: commerce0_def)

lemma financial_status_order0 [simp]: "financial_status order0 = ''pending''"
  by (simp add: order0_def)

lemma shopify_down_fails [simp]: "fst (shopify_down c q w) = None"
  by (simp add: shopify_down_def)

lemma reports_paid_without [simp]:
  "\<not> broken (GetOrder i) \<Longrightarrow>
   reports_paid (shopify_without broken) c i w = (financial_status w = ''paid'')"
  by (simp add: reports_paid_def shopify_without_def shopify_ok_def)



section \<open>Sequences of deliveries: partial payments\<close>

lemma webhook_route_next:
  assumes "getPaymentMapping st (payment_id payload) = Some mapping"
      and "getShop st (shopDomain mapping) = Some shopData"
  shows "snd (webhook_route api payload (st, s)) =
           (updatePaymentMappingStatus st (payment_id payload) (p_status payload),
            snd (dispatch_event api
                  \<lparr>client_shopDomain = shopDomain mapping,
                   client_accessToken = accessToken shopData\<rparr> mapping payload s))"
  using webhook_route_store [of api payload st s] webhook_route_commerce [OF assms, of api s]
  by (simp add: prod_eq_iff)

lemma dispatch_event_partial:
  "event payload = ''payment.partial'' \<Longrightarrow>
   dispatch_event api c mapping payload s = handlePaymentPartial api c mapping payload s"
  by (simp add: dispatch_event_def)

lemma deliver_all_partial_notes:
  assumes "getPaymentMapping st paymentId = Some mapping"
      and "getShop st (shopDomain mapping) = Some shopData"
      and "\<forall>p \<in> set ps. payment_id p = paymentId \<and> event p = ''payment.partial''"
  shows "note_calls (shopifyOrderId mapping) (snd (deliver_all api ps (st, s)))
           = note_calls (shopifyOrderId mapping) s + length ps"
  using assms
proof (induction ps arbitrary: st s mapping)
  case Nil
  then show ?case by simp
next
  case (Cons p ps)
  let ?st' = "updatePaymentMappingStatus st paymentId (p_status p)"
  let ?c = "\<lparr>client_shopDomain = shopDomain mapping, client_accessToken = accessToken shopData\<rparr>"
  let ?s' = "snd (handlePaymentPartial api ?c mapping p s)"
  let ?m' = "mapping\<lparr>status := p_status p\<rparr>"
  from Cons.prems have p: "payment_id p = paymentId" "event p = ''payment.partial''"
    by simp_all
  have step: "snd (webhook_route api p (st, s)) = (?st', ?s')"
    using webhook_route_next [of st p mapping shopData api s] Cons.prems(1,2) p
    by (simp add: dispatch_event_partial)
  have m': "getPaymentMapping ?st' paymentId = Some ?m'"
    using Cons.prems(1) by (simp add: getPaymentMapping_update)
  have sh': "getShop ?st' (shopDomain ?m') = Some shopData"
    using Cons.prems(2) by simp
  have rest: "\<forall>p \<in> set ps. payment_id p = paymentId \<and> event p = ''payment.partial''"
    using Cons.prems(3) by simp
  have "note_calls (shopifyOrderId ?m') (snd (deliver_all api ps (?st', ?s')))
          = note_calls (shopifyOrderId ?m') ?s' + length ps"
    by (rule Cons.IH [OF m' sh' rest])
  then show ?case
    by (simp add: step handlePaymentPartial_notes)
qed

text \<open>
  C7 (as amended). Partial-payment notes are not keyed by the paid amount: for a mapped
  payment whose shop is installed, every \<open>payment.partial\<close> delivery sends exactly one
  order-note request for the order, whatever amount it reports and whatever was delivered
  before. With expected amount 50, a first observation with paid amount 30 sends one note,
  a second one still reporting 30 sends one more, and a third reporting 45 sends one more.
\<close>

theorem partial_push_notes_every_time:
  assumes "getPaymentMapping st paymentId = Some mapping"
      and "getShop st (shopDomain mapping) = Some shopData"
      and "\<forall>p \<in> set ps. payment_id p = paymentId \<and> event p = ''payment.partial''"
  shows "note_calls (shopifyOrderId mapping) (snd (deliver_all api ps (st, s)))
           = note_calls (shopifyOrderId mapping) s + length ps"
  using assms by (rule deliver_all_partial_notes)

lemma note_calls_commerce0 [simp]: "note_calls i commerce0 = 0"
  by (simp add: note_calls_def commerce0_def)

theorem partial_push_notes_every_time_witness:
  "getPaymentMapping store0 ''pay_1'' = Some mapping0 \<and>
   getShop store0 (shopDomain mapping0) = Some shop0 \<and>
   note_calls 1001 commerce0 = 0 \<and>
   note_calls 1001
     (snd (deliver_all shopify_ok
             [push0 ''payment.partial'' ''partial'' ''30'',
              push0 ''payment.partial'' ''partial'' ''30'',
              push0 ''payment.partial'' ''partial'' ''45''] (store0, commerce0))) = 3"
  using partial_push_notes_every_time [OF store0_mapping store0_shop,
          of "[push0 ''payment.partial'' ''partial'' ''30'',
               push0 ''payment.partial'' ''partial'' ''30'',
               push0 ''payment.partial'' ''partial'' ''45'']" shopify_ok commerce0]
  by simp

text \<open>
  Two deliveries that both report the paid amount 30: the first sends one note, the second
  sends another.
\<close>

theorem partial_notes_counterexample:
  "paid_amount (push0 ''payment.partial'' ''partial'' ''30'') = ''30'' \<and>
   note_calls 1001 commerce0 = 0 \<and>
   note_calls 1001
     (snd (deliver_all shopify_ok
             [push0 ''payment.partial'' ''partial'' ''30''] (store0, commerce0))) = 1 \<and>
   note_calls 1001
     (snd (deliver_all shopify_ok
             [push0 ''payment.partial'' ''partial'' ''30'',
              push0 ''payment.partial'' ''partial'' ''30''] (store0, commerce0))) = 2"
  using deliver_all_partial_notes [OF store0_mapping store0_shop,
          of "[push0 ''payment.partial'' ''partial'' ''30'']" shopify_ok commerce0]
    deliver_all_partial_notes [OF store0_mapping store0_shop,
          of "[push0 ''payment.partial'' ''partial'' ''30'',
               push0 ''payment.partial'' ''partial'' ''30'']" shopify_ok commerce0]
  by simp

section \<open>Duplicate deliveries of a paid notification\<close>

lemma handlePaymentSuccess_captures:
  "capture_calls (shopifyOrderId mapping) (snd (handlePaymentSuccess api c mapping payload s))
     = capture_calls (shopifyOrderId mapping) s
       + (if reports_paid api c (shopifyOrderId mapping) (remote_state s) then 0 else 1)"
  by (simp add: handlePaymentSuccess_def Let_def split_beta checked_paid
        getOrder_counts markOrderAsPaid_counts addOrderNote_counts addOrderTags_counts
      split: sum.splits)

lemma request_keeps_paid:
  "paid_is_stable api c i \<Longrightarrow> reports_paid api c i (remote_state s) \<Longrightarrow>
   reports_paid api c i (remote_state (snd (request api c q s)))"
  by (simp add: paid_is_stable_def remote_state_request)

lemma getOrder_keeps_paid:
  "paid_is_stable api c i \<Longrightarrow> reports_paid api c i (remote_state s) \<Longrightarrow>
   reports_paid api c i (remote_state (snd (getOrder api c j s)))"
  by (simp add: getOrder_eq request_keeps_paid)

lemma addOrderNote_keeps_paid:
  "paid_is_stable api c i \<Longrightarrow> reports_paid api c i (remote_state s) \<Longrightarrow>
   reports_paid api c i (remote_state (snd (addOrderNote api c j n s)))"
  by (simp add: addOrderNote_eq request_keeps_paid)

lemma addOrderTags_keeps_paid:
  "paid_is_stable api c i \<Longrightarrow> reports_paid api c i (remote_state s) \<Longrightarrow>
   reports_paid api c i (remote_state (snd (addOrderTags api c j t s)))"
  by (simp add: addOrderTags_eq request_keeps_paid split: option.splits shopify_response.splits)

lemma markOrderAsPaid_effect:
  "capture_takes_effect api c i \<Longrightarrow>
   reports_paid api c i (remote_state (snd (markOrderAsPaid api c i d s)))"
  by (simp add: markOrderAsPaid_eq remote_state_request capture_takes_effect_def)

lemma handlePaymentSuccess_then_paid:
  assumes "paid_is_stable api c (shopifyOrderId mapping)"
      and "capture_takes_effect api c (shopifyOrderId mapping)"
  shows "reports_paid api c (shopifyOrderId mapping)
           (remote_state (snd (handlePaymentSuccess api c mapping payload s)))"
proof (cases "reports_paid api c (shopifyOrderId mapping) (remote_state s)")
  case True
  then show ?thesis
    using assms(1) by (simp add: handlePaymentSuccess_paid getOrder_keeps_paid)
next
  case False
  then show ?thesis
    using assms
    by (simp add: handlePaymentSuccess_def Let_def split_beta checked_paid
          markOrderAsPaid_effect addOrderNote_keeps_paid addOrderTags_keeps_paid
        split: sum.splits)
qed

lemma dispatch_event_completed:
  "event payload = ''payment.completed'' \<Longrightarrow>
   dispatch_event api c mapping payload s = handlePaymentSuccess api c mapping payload s"
  by (simp add: dispatch_event_def)

lemma deliver_completed_step:
  assumes "getPaymentMapping st (payment_id payload) = Some mapping"
      and "getShop st (shopDomain mapping) = Some shopData"
      and "event payload = ''payment.completed''"
  shows "snd (webhook_route api payload (st, s)) =
           (updatePaymentMappingStatus st (payment_id payload) (p_status payload),
            snd (handlePaymentSuccess api
                  \<lparr>client_shopDomain = shopDomain mapping,
                   client_accessToken = accessToken shopData\<rparr> mapping payload s))"
  using webhook_route_next [OF assms(1,2), of api s] assms(3)
  by (simp add: dispatch_event_completed)

lemma duplicates_when_paid:
  assumes "getPaymentMapping st (payment_id payload) = Some mapping"
      and "getShop st (shopDomain mapping) = Some shopData"
      and "event payload = ''payment.completed''"
      and "c = \<lparr>client_shopDomain = shopDomain mapping, client_accessToken = accessToken shopData\<rparr>"
      and "paid_is_stable api c (shopifyOrderId mapping)"
      and "reports_paid api c (shopifyOrderId mapping) (remote_state s)"
  shows "capture_calls (shopifyOrderId mapping)
           (snd (deliver_all api (replicate n payload) (st, s)))
         = capture_calls (shopifyOrderId mapping) s"
  using assms
proof (induction n arbitrary: st s mapping)
  case 0
  then show ?case by simp
next
  case (Suc n)
  let ?st' = "updatePaymentMappingStatus st (payment_id payload) (p_status payload)"
  let ?s' = "snd (handlePaymentSuccess api c mapping payload s)"
  let ?m' = "mapping\<lparr>status := p_status payload\<rparr>"
  have step: "snd (webhook_route api payload (st, s)) = (?st', ?s')"
    using deliver_completed_step [OF Suc.prems(1,2,3), of api s] Suc.prems(4) by simp
  have m': "getPaymentMapping ?st' (payment_id payload) = Some ?m'"
    using Suc.prems(1) by (simp add: getPaymentMapping_update)
  have sh': "getShop ?st' (shopDomain ?m') = Some shopData"
    using Suc.prems(2) by simp
  have c': "c = \<lparr>client_shopDomain = shopDomain ?m', client_accessToken = accessToken shopData\<rparr>"
    using Suc.prems(4) by simp
  have st': "paid_is_stable api c (shopifyOrderId ?m')"
    using Suc.prems(5) by simp
  have s'_eq: "?s' = snd (getOrder api c (shopifyOrderId mapping) s)"
    using Suc.prems(6) by (simp add: handlePaymentSuccess_paid)
  have p': "reports_paid api c (shopifyOrderId ?m') (remote_state ?s')"
    using Suc.prems(5,6) by (simp add: s'_eq getOrder_keeps_paid)
  have "capture_calls (shopifyOrderId ?m') (snd (deliver_all api (replicate n payload) (?st', ?s')))
          = capture_calls (shopifyOrderId ?m') ?s'"
    by (rule Suc.IH [OF m' sh' Suc.prems(3) c' st' p'])
  then show ?case
    by (simp add: step s'_eq getOrder_counts)
qed

lemma duplicates_capture_once:
  assumes "getPaymentMapping st (payment_id payload) = Some mapping"
      and "getShop st (shopDomain mapping) = Some shopData"
      and "event payload = ''payment.completed''"
      and "c = \<lparr>client_shopDomain = shopDomain mapping, client_accessToken = accessToken shopData\<rparr>"
      and "paid_is_stable api c (shopifyOrderId mapping)"
      and "capture_takes_effect api c (shopifyOrderId mapping)"
      and "0 < n"
  shows "capture_calls (shopifyOrderId mapping)
           (snd (deliver_all api (replicate n payload) (st, s)))
         = capture_calls (shopifyOrderId mapping) s
           + (if reports_paid api c (shopifyOrderId mapping) (remote_state s) then 0 else 1)"
proof -
  from \<open>0 < n\<close> obtain k where n: "n = Suc k" by (cases n) auto
  let ?st' = "updatePaymentMappingStatus st (payment_id payload) (p_status payload)"
  let ?s' = "snd (handlePaymentSuccess api c mapping payload s)"
  let ?m' = "mapping\<lparr>status := p_status payload\<rparr>"
  have step: "snd (webhook_route api payload (st, s)) = (?st', ?s')"
    using deliver_completed_step [OF assms(1,2,3), of api s] assms(4) by simp
  have m': "getPaymentMapping ?st' (payment_id payload) = Some ?m'"
    using assms(1) by (simp add: getPaymentMapping_update)
  have sh': "getShop ?st' (shopDomain ?m') = Some shopData"
    using assms(2) by simp
  have c': "c = \<lparr>client_shopDomain = shopDomain ?m', client_accessToken = accessToken shopData\<rparr>"
    using assms(4) by simp
  have st': "paid_is_stable api c (shopifyOrderId ?m')"
    using assms(5) by simp
  have p': "reports_paid api c (shopifyOrderId ?m') (remote_state ?s')"
    using handlePaymentSuccess_then_paid [OF assms(5,6), of payload s] by simp
  have "capture_calls (shopifyOrderId ?m') (snd (deliver_all api (replicate k payload) (?st', ?s')))
          = capture_calls (shopifyOrderId ?m') ?s'"
    by (rule duplicates_when_paid [OF m' sh' assms(3) c' st' p'])
  then show ?thesis
    by (simp add: n step handlePaymentSuccess_captures)
qed

lemma duplicates_when_never_paid:
  assumes "getPaymentMapping st (payment_id payload) = Some mapping"
      and "getShop st (shopDomain mapping) = Some shopData"
      and "event payload = ''payment.completed''"
      and "c = \<lparr>client_shopDomain = shopDomain mapping, client_accessToken = accessToken shopData\<rparr>"
      and "\<forall>w. \<not> reports_paid api c (shopifyOrderId mapping) w"
  shows "capture_calls (shopifyOrderId mapping)
           (snd (deliver_all api (replicate n payload) (st, s)))
         = capture_calls (shopifyOrderId mapping) s + n"
  using assms
proof (induction n arbitrary: st s mapping)
  case 0
  then show ?case by simp
next
  case (Suc n)
  let ?st' = "updatePaymentMappingStatus st (payment_id payload) (p_status payload)"
  let ?s' = "snd (handlePaymentSuccess api c mapping payload s)"
  let ?m' = "mapping\<lparr>status := p_status payload\<rparr>"
  have step: "snd (webhook_route api payload (st, s)) = (?st', ?s')"
    using deliver_completed_step [OF Suc.prems(1,2,3), of api s] Suc.prems(4) by simp
  have m': "getPaymentMapping ?st' (payment_id payload) = Some ?m'"
    using Suc.prems(1) by (simp add: getPaymentMapping_update)
  have sh': "getShop ?st' (shopDomain ?m') = Some shopData"
    using Suc.prems(2) by simp
  have c': "c = \<lparr>client_shopDomain = shopDomain ?m', client_accessToken = accessToken shopData\<rparr>"
    using Suc.prems(4) by simp
  have np: "\<forall>w. \<not> reports_paid api c (shopifyOrderId ?m') w"
    using Suc.prems(5) by simp
  have "capture_calls (shopifyOrderId ?m') (snd (deliver_all api (replicate n payload) (?st', ?s')))
          = capture_calls (shopifyOrderId ?m') ?s' + n"
    by (rule Suc.IH [OF m' sh' Suc.prems(3) c' np])
  then show ?case
    using Suc.prems(5) by (simp add: step handlePaymentSuccess_captures)
qed

text \<open>
  C2 (as amended). Take one or more duplicate \<open>payment.completed\<close> notifications for a
  mapped payment whose shop is installed, delivered one after another. The handler keeps no
  record of what it has done; it asks the commerce system whether the order is paid. If the
  order lookup, once it reports the order paid, keeps reporting so, and a capture
  transaction succeeds and makes the lookup report the order paid, then exactly one capture
  call is issued for the order when the order was not reported paid at the start, and none
  when it was. If the lookup never reports the order paid (for instance because it fails,
  in which case the handler goes on), every delivery issues one more capture call.
\<close>

theorem duplicate_paid_pushes_captures:
  assumes "getPaymentMapping st (payment_id payload) = Some mapping"
      and "getShop st (shopDomain mapping) = Some shopData"
      and "event payload = ''payment.completed''"
      and "c = \<lparr>client_shopDomain = shopDomain mapping, client_accessToken = accessToken shopData\<rparr>"
      and "0 < n"
  shows "(paid_is_stable api c (shopifyOrderId mapping) \<and>
          capture_takes_effect api c (shopifyOrderId mapping) \<longrightarrow>
            capture_calls (shopifyOrderId mapping)
              (snd (deliver_all api (replicate n payload) (st, s)))
            = capture_calls (shopifyOrderId mapping) s
              + (if reports_paid api c (shopifyOrderId mapping) (remote_state s) then 0 else 1)) \<and>
         ((\<forall>w. \<not> reports_paid api c (shopifyOrderId mapping) w) \<longrightarrow>
            capture_calls (shopifyOrderId mapping)
              (snd (deliver_all api (replicate n payload) (st, s)))
            = capture_calls (shopifyOrderId mapping) s + n)"
  using duplicates_capture_once [OF assms(1,2,3,4) _ _ assms(5), of api s]
        duplicates_when_never_paid [OF assms(1,2,3,4), of api n s]
  by blast

lemma reports_paid_ok [simp]:
  "reports_paid shopify_ok c i w = (financial_status w = ''paid'')"
  by (simp add: reports_paid_def shopify_ok_def)

lemma reports_paid_blind [simp]: "reports_paid shopify_blind c i w = False"
  by (simp add: reports_paid_def shopify_blind_def)

lemma paid_is_stable_ok: "paid_is_stable shopify_ok c i"
  by (auto simp: paid_is_stable_def shopify_ok_def split: shopify_request.splits)

lemma capture_takes_effect_ok: "capture_takes_effect shopify_ok c i"
  by (simp add: capture_takes_effect_def) (simp add: shopify_ok_def)

lemma capture_calls_commerce0 [simp]: "capture_calls i commerce0 = 0"
  by (simp add: capture_calls_def commerce0_def)

theorem duplicate_paid_pushes_captures_witness:
  "getPaymentMapping store0 (payment_id (push0 ''payment.completed'' ''paid'' ''50'')) = Some mapping0 \<and>
   getShop store0 (shopDomain mapping0) = Some shop0 \<and>
   paid_is_stable shopify_ok
     \<lparr>client_shopDomain = shopDomain mapping0, client_accessToken = accessToken shop0\<rparr> 1001 \<and>
   capture_takes_effect shopify_ok
     \<lparr>client_shopDomain = shopDomain mapping0, client_accessToken = accessToken shop0\<rparr> 1001 \<and>
   capture_calls 1001
     (snd (deliver_all shopify_ok (replicate 3 (push0 ''payment.completed'' ''paid'' ''50''))
             (store0, commerce0))) = 1 \<and>
   capture_calls 1001
     (snd (deliver_all shopify_blind (replicate 3 (push0 ''payment.completed'' ''paid'' ''50''))
             (store0, commerce0))) = 3"
proof -
  have a: "getPaymentMapping store0 (payment_id (push0 ''payment.completed'' ''paid'' ''50''))
             = Some mapping0"
    by simp
  have e: "event (push0 ''payment.completed'' ''paid'' ''50'') = ''payment.completed''"
    by simp
  have n: "0 < (3::nat)" by simp
  show ?thesis
    using a paid_is_stable_ok capture_takes_effect_ok
      duplicate_paid_pushes_captures [OF a store0_shop e refl n, of shopify_ok commerce0]
      duplicate_paid_pushes_captures [OF a store0_shop e refl n, of shopify_blind commerce0]
    by simp
qed

text \<open>
  With a commerce system whose order lookup fails, two duplicate deliveries issue two
  capture calls.
\<close>

theorem duplicate_paid_pushes_counterexample:
  "fst (getOrder shopify_blind
          \<lparr>client_shopDomain = shopDomain mapping0, client_accessToken = accessToken shop0\<rparr>
          (shopifyOrderId mapping0) commerce0) = Inl ShopifyApiError \<and>
   capture_calls 1001 commerce0 = 0 \<and>
   capture_calls 1001
     (snd (deliver_all shopify_blind (replicate 2 (push0 ''payment.completed'' ''paid'' ''50''))
             (store0, commerce0))) = 2"
proof -
  have a: "getPaymentMapping store0 (payment_id (push0 ''payment.completed'' ''paid'' ''50''))
             = Some mapping0"
    by simp
  have e: "event (push0 ''payment.completed'' ''paid'' ''50'') = ''payment.completed''"
    by simp
  have g: "fst (getOrder shopify_blind
          \<lparr>client_shopDomain = shopDomain mapping0, client_accessToken = accessToken shop0\<rparr>
          (shopifyOrderId mapping0) commerce0) = Inl ShopifyApiError"
    by (simp add: getOrder_eq shopify_blind_def)
  show ?thesis
    using g duplicates_when_never_paid [OF a store0_shop e refl, of shopify_blind 2 commerce0]
    by simp
qed

section \<open>Polls and pushes\<close>

lemma dispatch_event_status:
  "dispatch_event api c (mapping\<lparr>status := x\<rparr>) payload s = dispatch_event api c mapping payload s"
  by (simp add: dispatch_event_def handlePaymentSuccess_def handlePaymentExpired_def
        handlePaymentCancelled_def cancel_unless_settled_def handlePaymentPartial_def
        success_details_def split_beta cong: sum.case_cong if_cong)

lemma webhook_route_snd:
  "snd (webhook_route api payload (st, s)) =
     (updatePaymentMappingStatus st (payment_id payload) (p_status payload),
      (case getPaymentMapping st (payment_id payload) of
         None \<Rightarrow> s
       | Some mapping \<Rightarrow>
           (case getShop st (shopDomain mapping) of
              None \<Rightarrow> s
            | Some shopData \<Rightarrow>
                snd (dispatch_event api
                       \<lparr>client_shopDomain = shopDomain mapping,
                        client_accessToken = accessToken shopData\<rparr> mapping payload s))))"
  using webhook_route_store [of api payload st s]
  by (simp add: prod_eq_iff webhook_route_def Let_def split_beta split: option.splits sum.splits)

lemma status_route_snd:
  "snd (status_route pz paymentId (st, m)) =
     (case getPaymentMapping st paymentId of
        None \<Rightarrow> (st, m)
      | Some mapping \<Rightarrow>
          ((case fst (getPayment pz paymentId m) of
              Inr payment \<Rightarrow> updatePaymentMappingStatus st paymentId (pay_status payment)
            | Inl e \<Rightarrow> st),
           snd (getPayment pz paymentId m)))"
  by (simp add: status_route_def Let_def split_beta split: option.splits sum.splits)

lemma observe_push:
  "snd (observe api pz (Push payload) (st, s, m)) =
     (fst (snd (webhook_route api payload (st, s))), snd (snd (webhook_route api payload (st, s))), m)"
  by (simp add: observe_def split_beta)

lemma observe_poll:
  "snd (observe api pz (Poll paymentId) (st, s, m)) =
     (fst (snd (status_route pz paymentId (st, m))), s, snd (snd (status_route pz paymentId (st, m))))"
  by (simp add: observe_def split_beta)

lemma cancel_unless_settled_counts:
  "capture_calls i (snd (cancel_unless_settled api c mapping r t s)) = capture_calls i s"
  "cancel_calls i (snd (cancel_unless_settled api c mapping r t s)) \<le> Suc (cancel_calls i s)"
  by (simp_all add: cancel_unless_settled_def split_beta getOrder_counts cancelOrder_counts
                    addOrderTags_counts split: sum.splits)

lemma handlePaymentSuccess_cancels:
  "cancel_calls i (snd (handlePaymentSuccess api c mapping payload s)) = cancel_calls i s"
  by (simp add: handlePaymentSuccess_def Let_def split_beta
        getOrder_counts markOrderAsPaid_counts addOrderNote_counts addOrderTags_counts
      split: sum.splits)

lemma handlePaymentSuccess_captures_le:
  "capture_calls i (snd (handlePaymentSuccess api c mapping payload s)) \<le> Suc (capture_calls i s)"
  by (simp add: handlePaymentSuccess_def Let_def split_beta
        getOrder_counts markOrderAsPaid_counts addOrderNote_counts addOrderTags_counts
      split: sum.splits)

lemma handlePaymentPartial_counts:
  "capture_calls i (snd (handlePaymentPartial api c mapping payload s)) = capture_calls i s"
  "cancel_calls i (snd (handlePaymentPartial api c mapping payload s)) = cancel_calls i s"
  by (simp_all add: handlePaymentPartial_def split_beta addOrderNote_counts addOrderTags_counts
               split: sum.splits)

lemma dispatch_event_at_most_one:
  "capture_calls i (snd (dispatch_event api c mapping payload s)) \<le> Suc (capture_calls i s)"
  "cancel_calls i (snd (dispatch_event api c mapping payload s)) \<le> Suc (cancel_calls i s)"
  by (simp_all add: dispatch_event_def handlePaymentExpired_def handlePaymentCancelled_def
        cancel_unless_settled_counts handlePaymentSuccess_cancels handlePaymentSuccess_captures_le
        handlePaymentPartial_counts)

lemma webhook_route_at_most_one:
  "capture_calls i (snd (snd (webhook_route api payload (st, s)))) \<le> Suc (capture_calls i s)"
  "cancel_calls i (snd (snd (webhook_route api payload (st, s)))) \<le> Suc (cancel_calls i s)"
  using dispatch_event_at_most_one [of i api _ _ payload s]
  by (simp_all add: webhook_route_snd split: option.splits)

lemma push_after_poll_commerce:
  assumes "payment_id payload = paymentId"
  shows "snd (snd (webhook_route api payload (fst (snd (status_route pz paymentId (st, m))), s)))
       = snd (snd (webhook_route api payload (st, s)))"
proof (cases "getPaymentMapping st paymentId")
  case None
  then show ?thesis by (simp add: status_route_snd)
next
  case (Some mapping)
  show ?thesis
  proof (cases "fst (getPayment pz paymentId m)")
    case (Inl e)
    then show ?thesis using Some by (simp add: status_route_snd)
  next
    case (Inr payment)
    then show ?thesis
      using Some assms
      by (simp add: status_route_snd webhook_route_snd getPaymentMapping_update
            dispatch_event_status split: option.splits)
  qed
qed

lemma poll_after_push_monitoring:
  "snd (snd (status_route pz paymentId (fst (snd (webhook_route api payload (st, s))), m)))
     = snd (snd (status_route pz paymentId (st, m)))"
  by (simp add: status_route_snd webhook_route_snd getPaymentMapping_update split: option.splits)

lemma poll_then_push:
  assumes "fst (getPayment pz paymentId m) = Inr payment"
      and "payment_id payload = paymentId"
      and "p_status payload = pay_status payment"
  shows "snd (observe api pz (Push payload) (snd (observe api pz (Poll paymentId) (st, s, m))))
       = snd (observe api pz (Poll paymentId) (snd (observe api pz (Push payload) (st, s, m))))"
proof -
  have store: "fst (snd (webhook_route api payload (fst (snd (status_route pz paymentId (st, m))), s)))
             = fst (snd (status_route pz paymentId (fst (snd (webhook_route api payload (st, s))), m)))"
    using assms by (simp add: webhook_route_store status_route_store)
  show ?thesis
    using store push_after_poll_commerce [OF assms(2), of api pz st m s]
      poll_after_push_monitoring [of pz paymentId api payload st s m]
    by (simp add: observe_push observe_poll)
qed

lemma poll_then_push_commerce:
  assumes "payment_id payload = paymentId"
  shows "fst (snd (snd (observe api pz (Push payload)
                          (snd (observe api pz (Poll paymentId) (st, s, m))))))
       = fst (snd (snd (observe api pz (Push payload) (st, s, m))))"
  using push_after_poll_commerce [OF assms, of api pz st m s]
  by (simp add: observe_push observe_poll)

text \<open>
  C4 (as amended). A poll does not go through the push path: the status route stores the
  status the monitoring service reports and sends nothing to the commerce system. For
  every status, a poll whose query succeeds leaves the same store as a push reporting that
  status, and leaves the commerce side as it was; so a poll that first observes \<open>paid\<close>
  triggers no mark-paid call. For one poll and one push reporting the same status, either
  order ends in the same store, commerce side and monitoring side; the commerce calls are
  those of the push alone, hence at most one capture and at most one cancellation.
\<close>

theorem poll_and_push:
  assumes "fst (getPayment pz paymentId m) = Inr payment"
      and "payment_id payload = paymentId"
      and "p_status payload = pay_status payment"
  shows "fst (snd (observe api pz (Poll paymentId) (st, s, m)))
           = fst (snd (observe api pz (Push payload) (st, s, m))) \<and>
         fst (snd (snd (observe api pz (Poll paymentId) (st, s, m)))) = s \<and>
         snd (observe api pz (Push payload) (snd (observe api pz (Poll paymentId) (st, s, m))))
           = snd (observe api pz (Poll paymentId) (snd (observe api pz (Push payload) (st, s, m)))) \<and>
         fst (snd (snd (observe api pz (Push payload)
                          (snd (observe api pz (Poll paymentId) (st, s, m))))))
           = fst (snd (snd (observe api pz (Push payload) (st, s, m)))) \<and>
         capture_calls i (fst (snd (snd (observe api pz (Push payload)
                          (snd (observe api pz (Poll paymentId) (st, s, m)))))))
           \<le> capture_calls i s + 1 \<and>
         cancel_calls i (fst (snd (snd (observe api pz (Push payload)
                          (snd (observe api pz (Poll paymentId) (st, s, m)))))))
           \<le> cancel_calls i s + 1"
proof -
  have 1: "fst (snd (observe api pz (Poll paymentId) (st, s, m)))
           = fst (snd (observe api pz (Push payload) (st, s, m)))"
    using assms by (simp add: observe_push observe_poll webhook_route_store status_route_store)
  have 2: "fst (snd (snd (observe api pz (Poll paymentId) (st, s, m)))) = s"
    by (simp add: observe_poll)
  have 5: "fst (snd (snd (observe api pz (Push payload) (st, s, m))))
             = snd (snd (webhook_route api payload (st, s)))"
    by (simp add: observe_push)
  show ?thesis
    using 1 2 poll_then_push [OF assms, of api st s]
      poll_then_push_commerce [OF assms(2), of api pz st s m]
    using webhook_route_at_most_one [of i api payload st s]
    by (simp add: 5)
qed

theorem poll_and_push_witness:
  "fst (getPayment (payzcore_reports ''paid'') ''pay_1'' monitoring0) = Inr (payment0 ''paid'') \<and>
   payment_id (push0 ''payment.completed'' ''paid'' ''50'') = ''pay_1'' \<and>
   p_status (push0 ''payment.completed'' ''paid'' ''50'') = pay_status (payment0 ''paid'') \<and>
   fst (snd (observe shopify_ok (payzcore_reports ''paid'') (Poll ''pay_1'')
               (store0, commerce0, monitoring0)))
     = fst (snd (observe shopify_ok (payzcore_reports ''paid'')
                   (Push (push0 ''payment.completed'' ''paid'' ''50''))
                   (store0, commerce0, monitoring0))) \<and>
   fst (snd (snd (observe shopify_ok (payzcore_reports ''paid'') (Poll ''pay_1'')
                    (store0, commerce0, monitoring0)))) = commerce0 \<and>
   snd (observe shopify_ok (payzcore_reports ''paid'')
          (Push (push0 ''payment.completed'' ''paid'' ''50''))
          (snd (observe shopify_ok (payzcore_reports ''paid'') (Poll ''pay_1'')
                  (store0, commerce0, monitoring0))))
     = snd (observe shopify_ok (payzcore_reports ''paid'') (Poll ''pay_1'')
              (snd (observe shopify_ok (payzcore_reports ''paid'')
                      (Push (push0 ''payment.completed'' ''paid'' ''50''))
                      (store0, commerce0, monitoring0)))) \<and>
   capture_calls 1001
     (fst (snd (snd (observe shopify_ok (payzcore_reports ''paid'')
                       (Push (push0 ''payment.completed'' ''paid'' ''50''))
                       (snd (observe shopify_ok (payzcore_reports ''paid'') (Poll ''pay_1'')
                               (store0, commerce0, monitoring0)))))))
     \<le> capture_calls 1001 commerce0 + 1"
proof -
  have a: "fst (getPayment (payzcore_reports ''paid'') ''pay_1'' monitoring0) = Inr (payment0 ''paid'')"
    by simp
  have b: "payment_id (push0 ''payment.completed'' ''paid'' ''50'') = ''pay_1''" by simp
  have c: "p_status (push0 ''payment.completed'' ''paid'' ''50'') = pay_status (payment0 ''paid'')"
    by simp
  show ?thesis
    using a b c poll_and_push [OF a b c, of shopify_ok store0 commerce0 1001]
    by blast
qed

lemma issued_commerce0: "issued commerce0 = []"
  by (simp add: commerce0_def)

text \<open>
  A poll that observes \<open>paid\<close> stores \<open>paid\<close> and sends nothing to the commerce system; the
  push reporting \<open>paid\<close> stores the same status and issues the capture call.
\<close>

theorem poll_without_side_effect_counterexample:
  "stored_status (fst (snd (observe shopify_ok (payzcore_reports ''paid'') (Poll ''pay_1'')
                              (store0, commerce0, monitoring0)))) ''pay_1'' = Some ''paid'' \<and>
   issued (fst (snd (snd (observe shopify_ok (payzcore_reports ''paid'') (Poll ''pay_1'')
                            (store0, commerce0, monitoring0))))) = [] \<and>
   stored_status (fst (snd (observe shopify_ok (payzcore_reports ''paid'')
                              (Push (push0 ''payment.completed'' ''paid'' ''50''))
                              (store0, commerce0, monitoring0)))) ''pay_1'' = Some ''paid'' \<and>
   capture_calls 1001
     (fst (snd (snd (observe shopify_ok (payzcore_reports ''paid'')
                       (Push (push0 ''payment.completed'' ''paid'' ''50''))
                       (store0, commerce0, monitoring0))))) = 1"
proof -
  have a: "getPaymentMapping store0 (payment_id (push0 ''payment.completed'' ''paid'' ''50''))
             = Some mapping0"
    by simp
  have e: "event (push0 ''payment.completed'' ''paid'' ''50'') = ''payment.completed''"
    by simp
  have push: "snd (snd (webhook_route shopify_ok (push0 ''payment.completed'' ''paid'' ''50'')
                          (store0, commerce0)))
                = snd (handlePaymentSuccess shopify_ok
                         \<lparr>client_shopDomain = shopDomain mapping0,
                          client_accessToken = accessToken shop0\<rparr>
                         mapping0 (push0 ''payment.completed'' ''paid'' ''50'') commerce0)"
    using deliver_completed_step [OF a store0_shop e, of shopify_ok commerce0] by simp
  have cap: "capture_calls (shopifyOrderId mapping0)
               (snd (handlePaymentSuccess shopify_ok
                         \<lparr>client_shopDomain = shopDomain mapping0,
                          client_accessToken = accessToken shop0\<rparr>
                         mapping0 (push0 ''payment.completed'' ''paid'' ''50'') commerce0)) = 1"
    by (simp only: handlePaymentSuccess_captures) simp
  show ?thesis
    using cap
    by (simp add: observe_push observe_poll push webhook_route_store status_route_store
          stored_status_update issued_commerce0)
qed

section \<open>Signature verification\<close>
















lemma verify_no_body:
  "signature \<noteq> [] \<Longrightarrow> timestamp \<noteq> [] \<Longrightarrow> parse_date timestamp = Some ts \<Longrightarrow>
   \<bar>now - ts\<bar> \<le> 5 * 60 * 1000 \<Longrightarrow>
   verifyPayzCoreWebhook hmac parse_date secret now (Some signature) (Some timestamp) None
     = Rejected 400 ''Missing request body''"
  by (simp add: verifyPayzCoreWebhook_def)



lemma length_checksum_hmac [simp]: "length (checksum_hmac k m) = 32"
  by (simp add: checksum_hmac_def)

lemma parse_date0_ts [simp]: "parse_date0 ''2025-01-01T00:10:00.000Z'' = Some 1735690200000"
  by (simp add: parse_date0_def)





end
